theory Spec2Isabelle
  imports Main "HOL-Library.Word"
begin

section \<open>Python values and exceptions\<close>

text \<open>
  The transfer pipeline of \<^verbatim>\<open>sui_transfer.py\<close> and the address derivation of
  \<^verbatim>\<open>wallet_panel.py\<close>, as HOL functions. A Python exception is a value of
  \<open>py_error\<close>; a function that can raise returns \<open>py_error + 'a\<close> with \<open>Inl\<close> the
  exception.
\<close>

type_synonym byte = "8 word"
type_synonym bytes = "byte list"

datatype py_error =
    TypeError | IndexError | KeyError | ValueError | AttributeError
  | OverflowError | EOFError | OSError
  | BinasciiError        \<comment> \<open>\<^verbatim>\<open>binascii.Error\<close>, raised by \<^verbatim>\<open>base64.b64decode\<close>\<close>
  | JSONDecodeError      \<comment> \<open>raised by \<^verbatim>\<open>json.loads\<close>\<close>
  | RpcException         \<comment> \<open>\<^verbatim>\<open>Exception("RPC error: ...")\<close> of \<^verbatim>\<open>rpc_call\<close>\<close>
  | RequestException     \<comment> \<open>what \<^verbatim>\<open>requests.post\<close> or \<^verbatim>\<open>r.json()\<close> raises\<close>
  | KeyringError         \<comment> \<open>what \<^verbatim>\<open>keyring.get_password\<close> raises\<close>

subsection \<open>Hexadecimal strings\<close>

definition hexdigit :: "nat \<Rightarrow> char" where
  "hexdigit n = ''0123456789abcdef'' ! n"

definition hex_byte :: "byte \<Rightarrow> string" where
  "hex_byte b = [hexdigit (unat b div 16), hexdigit (unat b mod 16)]"

text \<open>\<^verbatim>\<open>hasher.hexdigest()\<close>, \<^verbatim>\<open>bytes.hex()\<close>: two lower-case digits per byte.\<close>

definition hexdigest :: "bytes \<Rightarrow> string" where
  "hexdigest bs = concat (map hex_byte bs)"

definition hexval :: "char \<Rightarrow> nat option" where
  "hexval c =
     (let n = of_char c :: nat in
      if 48 \<le> n \<and> n \<le> 57 then Some (n - 48)
      else if 97 \<le> n \<and> n \<le> 102 then Some (n - 87)
      else if 65 \<le> n \<and> n \<le> 70 then Some (n - 55)
      else None)"

text \<open>ASCII white space as \<^verbatim>\<open>bytes.fromhex\<close> skips it: space, TAB, LF, VT, FF, CR.\<close>

definition is_space :: "char \<Rightarrow> bool" where
  "is_space c = (let n = of_char c :: nat in n = 32 \<or> (9 \<le> n \<and> n \<le> 13))"

text \<open>
  \<^verbatim>\<open>bytes.fromhex(s)\<close>: white space is skipped before a byte, then two hexadecimal
  digits are read; anything else raises ValueError (\<open>None\<close> here).
\<close>

fun fromhex :: "string \<Rightarrow> bytes option" where
  "fromhex [] = Some []"
| "fromhex [c] = (if is_space c then Some [] else None)"
| "fromhex (c # d # cs) =
     (if is_space c then fromhex (d # cs)
      else (case (hexval c, hexval d) of
              (Some h, Some l) \<Rightarrow> map_option ((#) (of_nat (16 * h + l))) (fromhex cs)
            | _ \<Rightarrow> None))"

text \<open>\<^verbatim>\<open>secret.replace("0x", "")\<close>: every occurrence is removed, scanning from the left.\<close>

fun remove_0x :: "string \<Rightarrow> string" where
  "remove_0x (a # b # cs) =
     (if a = CHR ''0'' \<and> b = CHR ''x'' then remove_0x cs else a # remove_0x (b # cs))"
| "remove_0x cs = cs"

definition startswith :: "string \<Rightarrow> string \<Rightarrow> bool" where
  "startswith s p = (take (length p) s = p)"

section \<open>The libraries the code calls\<close>

text \<open>
  The packages \<^verbatim>\<open>bech32\<close>, \<^verbatim>\<open>nacl\<close>, \<^verbatim>\<open>hashlib\<close> and \<^verbatim>\<open>base64\<close> are not part
  of the repository. Their functions are parameters of the model:
  \<^item> \<open>bech32_decode\<close>: \<^verbatim>\<open>bech32.bech32_decode(s)\<close>, \<open>None\<close> for its result
    \<^verbatim>\<open>(None, None)\<close> on a malformed string or a wrong checksum;
  \<^item> \<open>convertbits_5_8\<close>: \<^verbatim>\<open>bech32.convertbits(data, 5, 8, False)\<close>, \<open>None\<close> for its
    result \<^verbatim>\<open>None\<close> on invalid padding;
  \<^item> \<open>ed25519_public\<close>: \<^verbatim>\<open>SigningKey(seed).verify_key.encode()\<close>;
  \<^item> \<open>ed25519_sign\<close>: \<^verbatim>\<open>SigningKey(seed).sign(m).signature\<close>;
  \<^item> \<open>blake2b_256\<close>: \<^verbatim>\<open>hashlib.blake2b(digest_size=32)\<close> of one update;
  \<^item> \<open>b64decode\<close>, \<open>b64encode\<close>: \<^verbatim>\<open>base64.b64decode\<close> of a string (it can raise
    \<^verbatim>\<open>binascii.Error\<close> or ValueError) and \<^verbatim>\<open>base64.b64encode(..).decode()\<close>;
  \<^item> \<open>int_of_str\<close>: Python's \<^verbatim>\<open>int(s)\<close> on a string, \<open>None\<close> when it raises ValueError.
\<close>

record lib =
  bech32_decode :: "string \<Rightarrow> (string \<times> nat list) option"
  convertbits_5_8 :: "nat list \<Rightarrow> bytes option"
  ed25519_public :: "bytes \<Rightarrow> bytes"
  ed25519_sign :: "bytes \<Rightarrow> bytes \<Rightarrow> bytes"
  blake2b_256 :: "bytes \<Rightarrow> bytes"
  b64decode :: "string \<Rightarrow> py_error + bytes"
  b64encode :: "bytes \<Rightarrow> string"
  int_of_str :: "string \<Rightarrow> int option"

text \<open>The sizes the libraries document: 32-byte keys and digests, 64-byte signatures.\<close>

definition lib_sizes :: "lib \<Rightarrow> bool" where
  "lib_sizes L =
     ((\<forall>seed. length (ed25519_public L seed) = 32) \<and>
      (\<forall>seed m. length (ed25519_sign L seed m) = 64) \<and>
      (\<forall>m. length (blake2b_256 L m) = 32))"

text \<open>
  \<^verbatim>\<open>SigningKey(seed)\<close> raises ValueError unless the seed has exactly 32 bytes. This is
  the behaviour PyNaCl documents for its constructor; the package is not part of the
  repository, so the check is taken from that documentation and not from source text.
\<close>

definition SigningKey :: "bytes \<Rightarrow> py_error + bytes" where
  "SigningKey seed = (if length seed = 32 then Inr seed else Inl ValueError)"

section \<open>KeyCodec and AddressDeriver\<close>

text \<open>
  The last steps shared by \<^verbatim>\<open>get_address_from_key\<close> and \<^verbatim>\<open>derive_sui_address\<close>:
  the key pair of the seed, then BLAKE2b-256 of the scheme byte followed by the public key.
\<close>

definition address_of :: "lib \<Rightarrow> byte \<Rightarrow> bytes \<Rightarrow> string" where
  "address_of L scheme pk = ''0x'' @ hexdigest (blake2b_256 L (scheme # pk))"

text \<open>
  The first four lines of \<^verbatim>\<open>get_address_from_key\<close>: \<^verbatim>\<open>convertbits\<close> iterates over
  \<^verbatim>\<open>None\<close> (TypeError) when the string does not decode, \<^verbatim>\<open>bytes(None)\<close> is a
  TypeError, \<^verbatim>\<open>data8bit[0]\<close> of no bytes is an IndexError, and the slice
  \<^verbatim>\<open>data8bit[1:33]\<close> never raises.
\<close>

definition decode_bech32_key :: "lib \<Rightarrow> string \<Rightarrow> py_error + (byte \<times> bytes)" where
  "decode_bech32_key L privkey_bech32 =
     (case bech32_decode L privkey_bech32 of
        None \<Rightarrow> Inl TypeError
      | Some (hrp, data5bit) \<Rightarrow>
          (case convertbits_5_8 L data5bit of
             None \<Rightarrow> Inl TypeError
           | Some data8bit \<Rightarrow>
               (case data8bit of
                  [] \<Rightarrow> Inl IndexError
                | scheme # rest \<Rightarrow> Inr (scheme, take 32 rest))))"

text \<open>\<^verbatim>\<open>get_address_from_key\<close> returns \<^verbatim>\<open>(seed, scheme, pk, address)\<close>.\<close>

definition get_address_from_key :: "lib \<Rightarrow> string \<Rightarrow> py_error + (bytes \<times> byte \<times> bytes \<times> string)" where
  "get_address_from_key L privkey_bech32 =
     (case decode_bech32_key L privkey_bech32 of
        Inl e \<Rightarrow> Inl e
      | Inr (scheme, seed) \<Rightarrow>
          (case SigningKey seed of
             Inl e \<Rightarrow> Inl e
           | Inr sk \<Rightarrow>
               (let pk = ed25519_public L sk
                in Inr (seed, scheme, pk, address_of L scheme pk))))"

text \<open>
  \<^verbatim>\<open>derive_sui_address\<close> of \<^verbatim>\<open>wallet_panel.py\<close> returns a string on every path: the
  address, or \<^verbatim>\<open>"(derive failed: <e>)"\<close> from its \<^verbatim>\<open>except Exception\<close> clause.
  \<open>DeriveFailed e\<close> stands for that second string.
\<close>

datatype derived = Address string | DeriveFailed py_error

definition derive_sui_address :: "lib \<Rightarrow> string \<Rightarrow> derived" where
  "derive_sui_address L secret =
     (case (if startswith secret ''suiprivkey1'' then decode_bech32_key L secret
            else (case fromhex (take 64 (remove_0x secret)) of
                    None \<Rightarrow> Inl ValueError
                  | Some seed \<Rightarrow> Inr (0, seed))) of
        Inl e \<Rightarrow> DeriveFailed e
      | Inr (scheme, seed) \<Rightarrow>
          (case SigningKey seed of
             Inl e \<Rightarrow> DeriveFailed e
           | Inr sk \<Rightarrow> Address (address_of L scheme (ed25519_public L sk))))"

section \<open>IntentSigner\<close>

text \<open>
  The signing part of \<^verbatim>\<open>sign_and_execute\<close>, from the decoded transaction bytes to
  \<^verbatim>\<open>sig_bytes\<close>.
\<close>

definition intent_msg :: "bytes \<Rightarrow> bytes" where
  "intent_msg tx_bytes = [0, 0, 0] @ tx_bytes"

definition sig_bytes :: "lib \<Rightarrow> bytes \<Rightarrow> bytes \<Rightarrow> byte \<Rightarrow> py_error + bytes" where
  "sig_bytes L tx_bytes seed scheme =
     (let digest = blake2b_256 L (intent_msg tx_bytes)
      in case SigningKey seed of
           Inl e \<Rightarrow> Inl e
         | Inr sk \<Rightarrow>
             (let signature = ed25519_sign L sk digest;
                  pk = ed25519_public L sk
              in Inr ([scheme] @ signature @ pk)))"

section \<open>Floating-point amounts\<close>

text \<open>
  The amount reaches \<^verbatim>\<open>transfer\<close> as a Python float, an IEEE 754 double: \<open>Finite m e\<close>
  is the double of value \<open>m * 2 ^ e\<close> (with \<open>\<bar>m\<bar> < 2 ^ 53\<close> and \<open>- 1074 \<le> e\<close>), the other
  constructors are the infinities and NaN.
\<close>

datatype pyfloat = Finite int int | PosInf | NegInf | NaN

fun bitlen :: "nat \<Rightarrow> nat" where
  "bitlen n = (if n = 0 then 0 else Suc (bitlen (n div 2)))"

text \<open>\<open>a / 2 ^ k\<close> rounded to the nearest integer, ties to even.\<close>

definition rne_shift :: "nat \<Rightarrow> nat \<Rightarrow> nat" where
  "rne_shift a k =
     (if k = 0 then a
      else (let q = a div 2 ^ k; r = a mod 2 ^ k; half = 2 ^ (k - 1)
            in if half < r \<or> (r = half \<and> odd q) then q + 1 else q))"

text \<open>
  The double nearest to \<open>M * 2 ^ e\<close> (round to nearest, ties to even; 53 bits), or an
  infinity when that is \<open>2 ^ 1024\<close> or more in magnitude.
\<close>

definition round_double :: "int \<Rightarrow> int \<Rightarrow> pyfloat" where
  "round_double M e =
     (let a = nat \<bar>M\<bar>; k = bitlen a - 53; q = rne_shift a k; e' = e + int k
      in if 1024 < int (bitlen q) + e' then (if M < 0 then NegInf else PosInf)
         else Finite (sgn M * int q) e')"

text \<open>\<^verbatim>\<open>x * 1_000_000_000\<close> for a float \<open>x\<close>: the integer is exactly a double.\<close>

definition mul_1e9 :: "pyfloat \<Rightarrow> pyfloat" where
  "mul_1e9 x = (case x of Finite m e \<Rightarrow> round_double (m * 1000000000) e | _ \<Rightarrow> x)"

text \<open>\<^verbatim>\<open>int(x)\<close> for a float: truncation towards zero.\<close>

definition int_of_float :: "pyfloat \<Rightarrow> py_error + int" where
  "int_of_float x =
     (case x of
        Finite m e \<Rightarrow> Inr (if 0 \<le> e then m * 2 ^ nat e else sgn m * (\<bar>m\<bar> div 2 ^ nat (- e)))
      | PosInf \<Rightarrow> Inl OverflowError
      | NegInf \<Rightarrow> Inl OverflowError
      | NaN \<Rightarrow> Inl ValueError)"

text \<open>\<^verbatim>\<open>amount_mist = int(amount_sui * 1_000_000_000)\<close>, the first line of \<^verbatim>\<open>transfer\<close>
  and of \<^verbatim>\<open>dry_run_only\<close>.\<close>

definition amount_mist :: "pyfloat \<Rightarrow> py_error + int" where
  "amount_mist amount_sui = int_of_float (mul_1e9 amount_sui)"

text \<open>
  An integer in a float operation (\<^verbatim>\<open>n / 1e9\<close>, \<^verbatim>\<open>x + n\<close>) is converted to a double
  first, which raises OverflowError from \<open>2 ^ 1024 - 2 ^ 970\<close> on.
\<close>

definition as_float :: "int \<Rightarrow> py_error + unit" where
  "as_float n = (if \<bar>n\<bar> < 2 ^ 1024 - 2 ^ 970 then Inr () else Inl OverflowError)"

section \<open>JSON values\<close>

text \<open>
  What \<^verbatim>\<open>r.json()\<close> returns: \<^verbatim>\<open>None\<close>, a bool, an int, a float, a string, a list or
  a dict (here an association list read with \<open>map_of\<close>).
\<close>

datatype json =
    JNull | JBool bool | JInt int | JFloat pyfloat | JStr string
  | JArr "json list" | JObj "(string \<times> json) list"

text \<open>\<^verbatim>\<open>v.get(k, d)\<close>: only a dict has the method.\<close>

definition py_get :: "json \<Rightarrow> string \<Rightarrow> json \<Rightarrow> py_error + json" where
  "py_get v k d =
     (case v of
        JObj kvs \<Rightarrow> Inr (case map_of kvs k of None \<Rightarrow> d | Some x \<Rightarrow> x)
      | _ \<Rightarrow> Inl AttributeError)"

text \<open>\<^verbatim>\<open>v[k]\<close> with a string \<open>k\<close>: KeyError on a dict without the key, TypeError on
  everything that is not a dict.\<close>

definition py_item :: "json \<Rightarrow> string \<Rightarrow> py_error + json" where
  "py_item v k =
     (case v of
        JObj kvs \<Rightarrow> (case map_of kvs k of None \<Rightarrow> Inl KeyError | Some x \<Rightarrow> Inr x)
      | _ \<Rightarrow> Inl TypeError)"

text \<open>\<^verbatim>\<open>v[0]\<close>: the first element of a list, the first character of a string; a dict
  with string keys has no key \<open>0\<close>.\<close>

definition py_index0 :: "json \<Rightarrow> py_error + json" where
  "py_index0 v =
     (case v of
        JArr xs \<Rightarrow> (case xs of [] \<Rightarrow> Inl IndexError | x # _ \<Rightarrow> Inr x)
      | JStr s \<Rightarrow> (case s of [] \<Rightarrow> Inl IndexError | c # _ \<Rightarrow> Inr (JStr [c]))
      | JObj kvs \<Rightarrow> Inl KeyError
      | _ \<Rightarrow> Inl TypeError)"

text \<open>Truth value of \<^verbatim>\<open>not v\<close> and \<^verbatim>\<open>if v:\<close>.\<close>

definition truthy :: "json \<Rightarrow> bool" where
  "truthy v =
     (case v of
        JNull \<Rightarrow> False
      | JBool b \<Rightarrow> b
      | JInt n \<Rightarrow> n \<noteq> 0
      | JFloat x \<Rightarrow> (case x of Finite m e \<Rightarrow> m \<noteq> 0 | _ \<Rightarrow> True)
      | JStr s \<Rightarrow> s \<noteq> []
      | JArr xs \<Rightarrow> xs \<noteq> []
      | JObj kvs \<Rightarrow> kvs \<noteq> [])"

definition is_substring :: "string \<Rightarrow> string \<Rightarrow> bool" where
  "is_substring p s = list_ex (\<lambda>i. take (length p) (drop i s) = p) [0 ..< Suc (length s)]"

text \<open>\<^verbatim>\<open>k in v\<close> for a string \<open>k\<close>: a key of a dict, an element of a list, a substring
  of a string; TypeError on the rest.\<close>

definition py_contains :: "json \<Rightarrow> string \<Rightarrow> py_error + bool" where
  "py_contains v k =
     (case v of
        JObj kvs \<Rightarrow> Inr (map_of kvs k \<noteq> None)
      | JArr xs \<Rightarrow> Inr (List.member xs (JStr k))
      | JStr s \<Rightarrow> Inr (is_substring k s)
      | _ \<Rightarrow> Inl TypeError)"

text \<open>\<^verbatim>\<open>int(v)\<close>.\<close>

definition py_int :: "lib \<Rightarrow> json \<Rightarrow> py_error + int" where
  "py_int L v =
     (case v of
        JBool b \<Rightarrow> Inr (if b then 1 else 0)
      | JInt n \<Rightarrow> Inr n
      | JFloat x \<Rightarrow> int_of_float x
      | JStr s \<Rightarrow> (case int_of_str L s of None \<Rightarrow> Inl ValueError | Some n \<Rightarrow> Inr n)
      | _ \<Rightarrow> Inl TypeError)"

text \<open>\<^verbatim>\<open>for x in v\<close>: the elements of a list, the characters of a string, the keys of
  a dict.\<close>

definition py_iter :: "json \<Rightarrow> py_error + json list" where
  "py_iter v =
     (case v of
        JArr xs \<Rightarrow> Inr xs
      | JStr s \<Rightarrow> Inr (map (\<lambda>c. JStr [c]) s)
      | JObj kvs \<Rightarrow> Inr (map (\<lambda>kv. JStr (fst kv)) kvs)
      | _ \<Rightarrow> Inl TypeError)"

text \<open>\<^verbatim>\<open>addr[:n] + "..." + addr[-4:]\<close> is a string only for a string; a list slice
  cannot be added to a string and the other values cannot be sliced.\<close>

definition short_addr :: "json \<Rightarrow> py_error + unit" where
  "short_addr addr = (case addr of JStr s \<Rightarrow> Inr () | _ \<Rightarrow> Inl TypeError)"

text \<open>\<^verbatim>\<open>str(n)\<close> for an int.\<close>

fun digits :: "nat \<Rightarrow> string" where
  "digits n = (if n < 10 then [hexdigit n] else digits (n div 10) @ [hexdigit (n mod 10)])"

definition py_str :: "int \<Rightarrow> string" where
  "py_str n = (if n < 0 then CHR ''-'' # digits (nat (- n)) else digits (nat n))"

definition endswith :: "string \<Rightarrow> string \<Rightarrow> bool" where
  "endswith s p = (length p \<le> length s \<and> drop (length s - length p) s = p)"

text \<open>
  \<^verbatim>\<open>s.strip().lower()\<close> on a line of code points below 256 (a \<open>char\<close> is one code
  point): \<^verbatim>\<open>strip\<close> removes the characters for which \<^verbatim>\<open>str.isspace\<close> holds, which below
  256 are 9 to 13, 28 to 32, 133 and 160; \<^verbatim>\<open>lower\<close> maps A to Z and the capital letters
  192 to 222 (215 apart) to the letter 32 places further.
\<close>

definition is_strip_space :: "char \<Rightarrow> bool" where
  "is_strip_space c =
     (let n = of_char c :: nat
      in n = 32 \<or> (9 \<le> n \<and> n \<le> 13) \<or> (28 \<le> n \<and> n \<le> 31) \<or> n = 133 \<or> n = 160)"

definition py_strip :: "string \<Rightarrow> string" where
  "py_strip s = rev (dropWhile is_strip_space (rev (dropWhile is_strip_space s)))"

definition py_lower :: "string \<Rightarrow> string" where
  "py_lower s =
     map (\<lambda>c. let n = of_char c :: nat
              in if (65 \<le> n \<and> n \<le> 90) \<or> (192 \<le> n \<and> n \<le> 222 \<and> n \<noteq> 215)
                 then char_of (n + 32) else c) s"

text \<open>
  Python's \<^verbatim>\<open>==\<close> on these values: numbers (and bools) by value, strings and \<^verbatim>\<open>None\<close>
  only with their like, lists element by element, dicts key by key.
\<close>

definition float_eq :: "pyfloat \<Rightarrow> pyfloat \<Rightarrow> bool" where
  "float_eq x y =
     (case (x, y) of
        (Finite m e, Finite n f) \<Rightarrow> m * 2 ^ nat (e - min e f) = n * 2 ^ nat (f - min e f)
      | (PosInf, PosInf) \<Rightarrow> True
      | (NegInf, NegInf) \<Rightarrow> True
      | _ \<Rightarrow> False)"

definition number_of :: "json \<Rightarrow> pyfloat option" where
  "number_of v =
     (case v of
        JBool b \<Rightarrow> Some (Finite (if b then 1 else 0) 0)
      | JInt n \<Rightarrow> Some (Finite n 0)
      | JFloat x \<Rightarrow> Some x
      | _ \<Rightarrow> None)"

fun py_eq :: "json \<Rightarrow> json \<Rightarrow> bool" where
  "py_eq (JArr xs) v = (case v of JArr ys \<Rightarrow> list_all2 py_eq xs ys | _ \<Rightarrow> False)"
| "py_eq (JObj kvs) v =
     (case v of
        JObj kvs' \<Rightarrow>
          length kvs = length kvs' \<and>
          list_all (\<lambda>kv. case map_of kvs' (fst kv) of None \<Rightarrow> False | Some x \<Rightarrow> py_eq (snd kv) x) kvs
      | _ \<Rightarrow> False)"
| "py_eq (JStr s) v = (v = JStr s)"
| "py_eq JNull v = (v = JNull)"
| "py_eq u v =
     (case (number_of u, number_of v) of (Some x, Some y) \<Rightarrow> float_eq x y | _ \<Rightarrow> False)"

text \<open>\<^verbatim>\<open>d[k] = v\<close> on a dict.\<close>

fun dict_set :: "string \<Rightarrow> json \<Rightarrow> (string \<times> json) list \<Rightarrow> (string \<times> json) list" where
  "dict_set k v [] = [(k, v)]"
| "dict_set k v (kv # kvs) = (if fst kv = k then (k, v) # kvs else kv # dict_set k v kvs)"

section \<open>The environment and what a run does\<close>

text \<open>
  What the code reads from outside: the keychain, the JSON-RPC node, the terminal and the
  address cache file \<^verbatim>\<open>.wallet_addresses.json\<close>.
  \<^item> \<open>keyring_get_password alias\<close>: \<^verbatim>\<open>keyring.get_password(SERVICE_ID, alias)\<close>,
    \<open>Inr None\<close> when it returns \<^verbatim>\<open>None\<close>;
  \<^item> \<open>rpc_post method params\<close>: the body \<^verbatim>\<open>requests.post(...).json()\<close> of the request
    for \<open>method\<close>, or what the two calls raise;
  \<^item> \<open>stdin_line\<close>: the line \<^verbatim>\<open>input()\<close> reads, \<open>None\<close> at end of input;
  \<^item> \<open>addr_file\<close>: the cache file, and \<open>addr_file_writable\<close> whether it can be written.
\<close>

datatype file_state =
    NoFile                \<comment> \<open>\<^verbatim>\<open>os.path.exists\<close> is false\<close>
  | Unreadable            \<comment> \<open>\<^verbatim>\<open>open\<close> raises OSError\<close>
  | NotJson               \<comment> \<open>\<^verbatim>\<open>json.loads\<close> raises\<close>
  | Content json

record world =
  keyring_get_password :: "string \<Rightarrow> py_error + string option"
  rpc_post :: "string \<Rightarrow> json list \<Rightarrow> py_error + json"
  stdin_line :: "string option"
  addr_file :: file_state
  addr_file_writable :: bool

text \<open>
  The lines a run prints to announce how it ends (the other lines echo values and are left
  out), by the place of the \<^verbatim>\<open>print\<close> in \<^verbatim>\<open>sui_transfer.py\<close>.
\<close>

datatype msg =
    CannotResolveName     \<comment> \<open>line 196\<close>
  | NoPrivateKey          \<comment> \<open>line 212\<close>
  | NoCoin                \<comment> \<open>line 223\<close>
  | SimulationFailed      \<comment> \<open>line 112, in \<^verbatim>\<open>print_dry_run\<close>\<close>
  | SimulationOk          \<comment> \<open>line 109, in \<^verbatim>\<open>print_dry_run\<close>\<close>
  | CancelledAfterDryRun  \<comment> \<open>line 242\<close>
  | UserCancelled         \<comment> \<open>line 249\<close>
  | AutoConfirm           \<comment> \<open>line 252\<close>
  | FinalStatus bool      \<comment> \<open>line 268, the check mark or the cross\<close>
  | KeyCleared            \<comment> \<open>line 285, in the \<^verbatim>\<open>finally\<close> block\<close>

text \<open>
  What a run does that the outside can see, in order: a request to the node, a read of the
  keychain, a prompt on the terminal, a write of the cache file, a printed line, and the
  entry into \<^verbatim>\<open>sign_and_execute\<close>.
\<close>

datatype event =
    Call string "json list"
  | Keychain string
  | Prompt
  | WriteFile "(string \<times> json) list"
  | Say msg
  | SignInvoked

text \<open>A step of the program: its value or exception, and the events it caused.\<close>

type_synonym 'a act = "(py_error + 'a) \<times> event list"

definition ret :: "'a \<Rightarrow> 'a act" where
  "ret x = (Inr x, [])"

definition lift :: "py_error + 'a \<Rightarrow> 'a act" where
  "lift r = (r, [])"

definition say :: "msg \<Rightarrow> unit act" where
  "say m = (Inr (), [Say m])"

text \<open>Sequencing: an exception ends the run, the events accumulate.\<close>

definition and_then :: "'a act \<Rightarrow> ('a \<Rightarrow> 'b act) \<Rightarrow> 'b act" where
  "and_then m f =
     (case m of
        (Inl e, es) \<Rightarrow> (Inl e, es)
      | (Inr x, es) \<Rightarrow> (case f x of (r, es') \<Rightarrow> (r, es @ es')))"

section \<open>The JSON-RPC calls\<close>

text \<open>
  \<^verbatim>\<open>rpc_call\<close>: the request is sent, then \<^verbatim>\<open>"error" in result\<close> is tested, and the
  message of the exception reads \<^verbatim>\<open>result['error']\<close>, which itself raises when the body
  is a list or a string.
\<close>

definition rpc_call :: "world \<Rightarrow> string \<Rightarrow> json list \<Rightarrow> json act" where
  "rpc_call w method params =
     ((case rpc_post w method params of
         Inl e \<Rightarrow> Inl e
       | Inr result \<Rightarrow>
           (case py_contains result ''error'' of
              Inl e \<Rightarrow> Inl e
            | Inr has_error \<Rightarrow>
                if has_error
                then (case py_item result ''error'' of Inl e \<Rightarrow> Inl e | Inr _ \<Rightarrow> Inl RpcException)
                else py_item result ''result'')),
      [Call method params])"

text \<open>\<^verbatim>\<open>resolve_suins\<close>: \<^verbatim>\<open>except Exception: return None\<close>.\<close>

definition resolve_suins :: "world \<Rightarrow> string \<Rightarrow> json act" where
  "resolve_suins w name =
     (case rpc_call w ''suix_resolveNameServiceAddress'' [JStr name] of
        (Inl e, es) \<Rightarrow> (Inr JNull, es)
      | (Inr result, es) \<Rightarrow> (Inr result, es))"

definition get_coins :: "world \<Rightarrow> string \<Rightarrow> json act" where
  "get_coins w address =
     rpc_call w ''suix_getCoins'' [JStr address, JStr ''0x2::sui::SUI'', JNull, JInt 10]"

definition build_transfer_tx :: "world \<Rightarrow> string \<Rightarrow> json \<Rightarrow> int \<Rightarrow> json \<Rightarrow> int \<Rightarrow> json act" where
  "build_transfer_tx w sender recipient amount coin_id gas_budget =
     rpc_call w ''unsafe_paySui''
       [JStr sender, JArr [coin_id], JArr [recipient], JArr [JStr (py_str amount)],
        JStr (py_str gas_budget)]"

definition dry_run :: "world \<Rightarrow> json \<Rightarrow> json act" where
  "dry_run w tx_bytes_b64 = rpc_call w ''sui_dryRunTransactionBlock'' [tx_bytes_b64]"

text \<open>
  \<^verbatim>\<open>sign_and_execute\<close>: \<^verbatim>\<open>base64.b64decode\<close> takes a string (TypeError on the other
  JSON values), the envelope is \<open>sig_bytes\<close>, and the request carries the transaction as it
  came and the envelope in base64.
\<close>

definition sign_and_execute :: "world \<Rightarrow> lib \<Rightarrow> json \<Rightarrow> bytes \<Rightarrow> byte \<Rightarrow> json act" where
  "sign_and_execute w L tx_bytes_b64 seed scheme =
     and_then (Inr (), [SignInvoked]) (\<lambda>_.
     and_then (lift (case tx_bytes_b64 of JStr s \<Rightarrow> b64decode L s | _ \<Rightarrow> Inl TypeError)) (\<lambda>tx_bytes.
     and_then (lift (sig_bytes L tx_bytes seed scheme)) (\<lambda>sig.
       rpc_call w ''sui_executeTransactionBlock''
         [tx_bytes_b64, JArr [JStr (b64encode L sig)],
          JObj [(''showEffects'', JBool True), (''showBalanceChanges'', JBool True)],
          JStr ''WaitForLocalExecution''])))"

section \<open>The dry-run preview\<close>

text \<open>
  \<^verbatim>\<open>status = effects.get("status", {}).get("status", "unknown")\<close> with
  \<^verbatim>\<open>effects = result.get("effects", {})\<close>, as \<^verbatim>\<open>print_dry_run\<close> and the end of
  \<^verbatim>\<open>transfer\<close> read it.
\<close>

definition effects_of :: "json \<Rightarrow> py_error + json" where
  "effects_of result = py_get result ''effects'' (JObj [])"

definition status_of :: "json \<Rightarrow> py_error + json" where
  "status_of effects =
     (case py_get effects ''status'' (JObj []) of
        Inl e \<Rightarrow> Inl e
      | Inr st \<Rightarrow> py_get st ''status'' (JStr ''unknown''))"

text \<open>\<^verbatim>\<open>int(gas.get(k, 0))\<close>.\<close>

definition gas_cost :: "lib \<Rightarrow> json \<Rightarrow> string \<Rightarrow> py_error + int" where
  "gas_cost L gas k = (case py_get gas k (JInt 0) of Inl e \<Rightarrow> Inl e | Inr v \<Rightarrow> py_int L v)"

text \<open>The three costs of \<^verbatim>\<open>effects.get("gasUsed", {})\<close>, read in the order of the code.\<close>

definition gas_used :: "lib \<Rightarrow> json \<Rightarrow> py_error + (int \<times> int \<times> int)" where
  "gas_used L effects =
     (case py_get effects ''gasUsed'' (JObj []) of
        Inl e \<Rightarrow> Inl e
      | Inr gas \<Rightarrow>
          (case gas_cost L gas ''computationCost'' of
             Inl e \<Rightarrow> Inl e
           | Inr computation \<Rightarrow>
               (case gas_cost L gas ''storageCost'' of
                  Inl e \<Rightarrow> Inl e
                | Inr storage \<Rightarrow>
                    (case gas_cost L gas ''storageRebate'' of
                       Inl e \<Rightarrow> Inl e
                     | Inr rebate \<Rightarrow> Inr (computation, storage, rebate)))))"

text \<open>
  One turn of the loop over \<^verbatim>\<open>balance_changes\<close> in \<^verbatim>\<open>print_dry_run\<close>. The owner is
  shortened only when it is neither the sender nor the recipient; \<open>recipient\<close> is a JSON
  value because a resolved name is what the node returned. \<^verbatim>\<open>coin_type.split\<close> exists
  only for a string.
\<close>

definition show_change :: "lib \<Rightarrow> string \<Rightarrow> json \<Rightarrow> json \<Rightarrow> py_error + unit" where
  "show_change L sender recipient bc =
     (case py_get bc ''owner'' (JObj []) of
        Inl e \<Rightarrow> Inl e
      | Inr owner \<Rightarrow>
     (case py_get owner ''AddressOwner'' (JStr ''?'') of
        Inl e \<Rightarrow> Inl e
      | Inr addr \<Rightarrow>
     (case py_get bc ''amount'' (JInt 0) of
        Inl e \<Rightarrow> Inl e
      | Inr a \<Rightarrow>
     (case py_int L a of
        Inl e \<Rightarrow> Inl e
      | Inr amt \<Rightarrow>
     (case py_get bc ''coinType'' (JStr []) of
        Inl e \<Rightarrow> Inl e
      | Inr coin_type \<Rightarrow>
     (case py_contains coin_type ''::'' of
        Inl e \<Rightarrow> Inl e
      | Inr has_sep \<Rightarrow>
     (case (if has_sep then (case coin_type of JStr s \<Rightarrow> Inr () | _ \<Rightarrow> Inl AttributeError)
            else Inr ()) of
        Inl e \<Rightarrow> Inl e
      | Inr _ \<Rightarrow>
     (case (if py_eq addr (JStr sender) \<or> py_eq addr recipient then Inr () else short_addr addr) of
        Inl e \<Rightarrow> Inl e
      | Inr _ \<Rightarrow> as_float amt))))))))"

fun show_changes :: "lib \<Rightarrow> string \<Rightarrow> json \<Rightarrow> json list \<Rightarrow> py_error + unit" where
  "show_changes L sender recipient [] = Inr ()"
| "show_changes L sender recipient (bc # bcs) =
     (case show_change L sender recipient bc of
        Inl e \<Rightarrow> Inl e
      | Inr _ \<Rightarrow> show_changes L sender recipient bcs)"

text \<open>
  What \<^verbatim>\<open>print_dry_run\<close> does after a status \<^verbatim>\<open>"success"\<close>: the balance changes, the
  four gas lines (\<^verbatim>\<open>n / 1e9\<close> each) and the summary \<^verbatim>\<open>amount_sui * 1e9 + gas_total\<close>.
\<close>

definition show_preview :: "lib \<Rightarrow> json \<Rightarrow> string \<Rightarrow> json \<Rightarrow> int \<times> int \<times> int \<Rightarrow> py_error + unit" where
  "show_preview L result sender recipient g =
     (case g of (computation, storage, rebate) \<Rightarrow>
     (case py_get result ''balanceChanges'' (JArr []) of
        Inl e \<Rightarrow> Inl e
      | Inr balance_changes \<Rightarrow>
     (case (if truthy balance_changes
            then (case py_iter balance_changes of
                    Inl e \<Rightarrow> Inl e
                  | Inr bcs \<Rightarrow> show_changes L sender recipient bcs)
            else Inr ()) of
        Inl e \<Rightarrow> Inl e
      | Inr _ \<Rightarrow>
     (case as_float computation of
        Inl e \<Rightarrow> Inl e
      | Inr _ \<Rightarrow>
     (case as_float storage of
        Inl e \<Rightarrow> Inl e
      | Inr _ \<Rightarrow>
     (case as_float rebate of
        Inl e \<Rightarrow> Inl e
      | Inr _ \<Rightarrow> as_float (computation + storage - rebate)))))))"

text \<open>
  \<^verbatim>\<open>print_dry_run\<close>: the status and the gas costs are read first, then the status is
  compared with \<^verbatim>\<open>"success"\<close>; \<^verbatim>\<open>False\<close> is returned from the \<^verbatim>\<open>else\<close> branch,
  \<^verbatim>\<open>True\<close> at the end.
\<close>

definition print_dry_run :: "lib \<Rightarrow> json \<Rightarrow> string \<Rightarrow> json \<Rightarrow> bool act" where
  "print_dry_run L result sender recipient =
     and_then (lift (effects_of result)) (\<lambda>effects.
     and_then (lift (status_of effects)) (\<lambda>status.
     and_then (lift (gas_used L effects)) (\<lambda>g.
       if py_eq status (JStr ''success'')
       then and_then (say SimulationOk) (\<lambda>_.
            and_then (lift (show_preview L result sender recipient g)) (\<lambda>_. ret True))
       else and_then (say SimulationFailed) (\<lambda>_. ret False))))"

section \<open>The transfer\<close>

text \<open>\<^verbatim>\<open>save_wallet_address\<close>: read the cache file if it exists, set the entry, write
  the file.\<close>

definition save_wallet_address :: "world \<Rightarrow> string \<Rightarrow> string \<Rightarrow> unit act" where
  "save_wallet_address w wallet_alias address =
     (case (case addr_file w of
              NoFile \<Rightarrow> Inr (JObj [])
            | Unreadable \<Rightarrow> Inl OSError
            | NotJson \<Rightarrow> Inl JSONDecodeError
            | Content v \<Rightarrow> Inr v) of
        Inl e \<Rightarrow> (Inl e, [])
      | Inr addrs \<Rightarrow>
          (case addrs of
             JObj kvs \<Rightarrow>
               if addr_file_writable w
               then (Inr (), [WriteFile (dict_set wallet_alias (JStr address) kvs)])
               else (Inl OSError, [])
           | _ \<Rightarrow> (Inl TypeError, [])))"

text \<open>The prompt of lines 246 to 252: \<^verbatim>\<open>True\<close> when the run goes on to sign.\<close>

definition confirm :: "world \<Rightarrow> bool \<Rightarrow> bool act" where
  "confirm w auto_confirm =
     (if \<not> auto_confirm
      then (case stdin_line w of
              None \<Rightarrow> (Inl EOFError, [Prompt])
            | Some line \<Rightarrow>
                (let ans = py_lower (py_strip line)
                 in (Inr (ans = ''y'' \<or> ans = ''yes''), [Prompt])))
      else (Inr True, [Say AutoConfirm]))"

text \<open>One turn of the loop of lines 273 to 277.\<close>

definition show_final_change :: "lib \<Rightarrow> json \<Rightarrow> py_error + unit" where
  "show_final_change L bc =
     (case py_item bc ''owner'' of
        Inl e \<Rightarrow> Inl e
      | Inr owner \<Rightarrow>
     (case py_get owner ''AddressOwner'' (JStr ''?'') of
        Inl e \<Rightarrow> Inl e
      | Inr addr \<Rightarrow>
     (case short_addr addr of
        Inl e \<Rightarrow> Inl e
      | Inr _ \<Rightarrow>
     (case py_item bc ''amount'' of
        Inl e \<Rightarrow> Inl e
      | Inr a \<Rightarrow>
     (case py_int L a of
        Inl e \<Rightarrow> Inl e
      | Inr amt \<Rightarrow> as_float amt)))))"

fun show_final_changes :: "lib \<Rightarrow> json list \<Rightarrow> py_error + unit" where
  "show_final_changes L [] = Inr ()"
| "show_final_changes L (bc # bcs) =
     (case show_final_change L bc of
        Inl e \<Rightarrow> Inl e
      | Inr _ \<Rightarrow> show_final_changes L bcs)"

text \<open>
  Lines 258 to 279: the result of the broadcast is shown and returned as it is, whatever
  its status.
\<close>

definition report :: "lib \<Rightarrow> json \<Rightarrow> json act" where
  "report L result =
     and_then (lift (effects_of result)) (\<lambda>effects.
     and_then (lift (status_of effects)) (\<lambda>status.
     and_then (lift (gas_used L effects)) (\<lambda>g.
     and_then (say (FinalStatus (py_eq status (JStr ''success'')))) (\<lambda>_.
     and_then (lift (as_float (fst g + fst (snd g) - snd (snd g)))) (\<lambda>_.
     and_then (lift (py_get result ''balanceChanges'' (JArr []))) (\<lambda>balance_changes.
     and_then (lift (py_iter balance_changes)) (\<lambda>bcs.
     and_then (lift (show_final_changes L bcs)) (\<lambda>_. ret result))))))))"

text \<open>Lines 241 to 279: the gate on the preview and on the confirmation, then the
  signature. \<^verbatim>\<open>return None\<close> is the value \<open>JNull\<close>.\<close>

definition transfer_gate :: "world \<Rightarrow> lib \<Rightarrow> bool \<Rightarrow> json \<Rightarrow> bytes \<Rightarrow> byte \<Rightarrow> bool \<Rightarrow> json act" where
  "transfer_gate w L auto_confirm tx_bytes seed scheme ok =
     (if \<not> ok then and_then (say CancelledAfterDryRun) (\<lambda>_. ret JNull)
      else and_then (confirm w auto_confirm) (\<lambda>yes.
             if \<not> yes then and_then (say UserCancelled) (\<lambda>_. ret JNull)
             else and_then (sign_and_execute w L tx_bytes seed scheme) (report L)))"

text \<open>Lines 236 to 239, then the gate.\<close>

definition transfer_simulate ::
  "world \<Rightarrow> lib \<Rightarrow> bool \<Rightarrow> string \<Rightarrow> json \<Rightarrow> json \<Rightarrow> bytes \<Rightarrow> byte \<Rightarrow> json act" where
  "transfer_simulate w L auto_confirm sender recipient tx_bytes seed scheme =
     and_then (dry_run w tx_bytes) (\<lambda>dry_result.
     and_then (print_dry_run L dry_result sender recipient)
       (transfer_gate w L auto_confirm tx_bytes seed scheme))"

text \<open>Lines 220 to 234: the first coin of the sender and the unsigned transaction.\<close>

definition transfer_build ::
  "world \<Rightarrow> lib \<Rightarrow> bool \<Rightarrow> string \<Rightarrow> json \<Rightarrow> int \<Rightarrow> bytes \<Rightarrow> byte \<Rightarrow> json act" where
  "transfer_build w L auto_confirm sender recipient mist seed scheme =
     and_then (get_coins w sender) (\<lambda>coins.
     and_then (lift (py_item coins ''data'')) (\<lambda>data.
       if \<not> truthy data then and_then (say NoCoin) (\<lambda>_. ret JNull)
       else
         and_then (lift (py_index0 data)) (\<lambda>coin.
         and_then (lift (py_item coin ''coinObjectId'')) (\<lambda>coin_id.
         and_then (lift (py_get coin ''balance'' (JInt 0))) (\<lambda>b.
         and_then (lift (py_int L b)) (\<lambda>balance.
         and_then (lift (as_float balance)) (\<lambda>_.
         and_then (build_transfer_tx w sender recipient mist coin_id 5000000) (\<lambda>tx_result.
         and_then (lift (py_item tx_result ''txBytes'')) (\<lambda>tx_bytes.
           transfer_simulate w L auto_confirm sender recipient tx_bytes seed scheme))))))))) "

text \<open>
  The local variables \<^verbatim>\<open>privkey\<close> and \<^verbatim>\<open>seed\<close> of \<^verbatim>\<open>transfer\<close>: not bound, bound to
  \<^verbatim>\<open>None\<close>, or bound to a value.
\<close>

datatype 'a var = Unbound | PyNone | Val 'a

record frame =
  v_privkey :: "string var"
  v_seed :: "bytes var"

text \<open>The body of the \<^verbatim>\<open>try\<close>, lines 216 to 279, with the binding of \<^verbatim>\<open>seed\<close> it
  leaves: line 216 binds it when \<^verbatim>\<open>get_address_from_key\<close> returns.\<close>

definition transfer_try ::
  "world \<Rightarrow> lib \<Rightarrow> bool \<Rightarrow> string \<Rightarrow> json \<Rightarrow> int \<Rightarrow> string \<Rightarrow> json act \<times> bytes var" where
  "transfer_try w L auto_confirm wallet_alias recipient mist privkey =
     (case get_address_from_key L privkey of
        Inl e \<Rightarrow> ((Inl e, []), Unbound)
      | Inr (seed, scheme, pk, sender) \<Rightarrow>
          (and_then (save_wallet_address w wallet_alias sender) (\<lambda>_.
             transfer_build w L auto_confirm sender recipient mist seed scheme),
           Val seed))"

text \<open>The \<^verbatim>\<open>finally\<close> block, lines 282 to 284: both names are set to \<^verbatim>\<open>None\<close>, then
  deleted.\<close>

definition clear_secrets :: "frame \<Rightarrow> frame" where
  "clear_secrets fr =
     (let fr1 = fr\<lparr>v_privkey := PyNone\<rparr>; fr2 = fr1\<lparr>v_seed := PyNone\<rparr>
      in fr2\<lparr>v_privkey := Unbound, v_seed := Unbound\<rparr>)"

text \<open>Lines 201 to 285, from the reading of the keychain on: the value or exception, the
  events, and the two variables when the function is left.\<close>

definition transfer_with_wallet ::
  "world \<Rightarrow> lib \<Rightarrow> bool \<Rightarrow> string \<Rightarrow> json \<Rightarrow> int \<Rightarrow> json act \<times> frame" where
  "transfer_with_wallet w L auto_confirm wallet_alias recipient mist =
     (case keyring_get_password w wallet_alias of
        Inl e \<Rightarrow> ((Inl e, [Keychain wallet_alias]), \<lparr>v_privkey = Unbound, v_seed = Unbound\<rparr>)
      | Inr None \<Rightarrow>
          ((Inr JNull, [Keychain wallet_alias, Say NoPrivateKey]),
           \<lparr>v_privkey = PyNone, v_seed = Unbound\<rparr>)
      | Inr (Some privkey) \<Rightarrow>
          if privkey = []
          then ((Inr JNull, [Keychain wallet_alias, Say NoPrivateKey]),
                \<lparr>v_privkey = Val privkey, v_seed = Unbound\<rparr>)
          else (case transfer_try w L auto_confirm wallet_alias recipient mist privkey of
                  ((r, es), seed_var) \<Rightarrow>
                    ((r, [Keychain wallet_alias] @ es @ [Say KeyCleared]),
                     clear_secrets \<lparr>v_privkey = Val privkey, v_seed = seed_var\<rparr>)))"

text \<open>\<^verbatim>\<open>transfer(wallet_alias, recipient, amount_sui, auto_confirm)\<close>.\<close>

definition transfer ::
  "world \<Rightarrow> lib \<Rightarrow> string \<Rightarrow> string \<Rightarrow> pyfloat \<Rightarrow> bool \<Rightarrow> json act \<times> frame" where
  "transfer w L wallet_alias recipient amount_sui auto_confirm =
     (case amount_mist amount_sui of
        Inl e \<Rightarrow> ((Inl e, []), \<lparr>v_privkey = Unbound, v_seed = Unbound\<rparr>)
      | Inr mist \<Rightarrow>
          if endswith recipient ''.sui''
          then (case resolve_suins w recipient of
                  (Inl e, es) \<Rightarrow> ((Inl e, es), \<lparr>v_privkey = Unbound, v_seed = Unbound\<rparr>)
                | (Inr resolved, es) \<Rightarrow>
                    if \<not> truthy resolved
                    then ((Inr JNull, es @ [Say CannotResolveName]),
                          \<lparr>v_privkey = Unbound, v_seed = Unbound\<rparr>)
                    else (case transfer_with_wallet w L auto_confirm wallet_alias resolved mist of
                            ((r, es'), fr) \<Rightarrow> ((r, es @ es'), fr)))
          else transfer_with_wallet w L auto_confirm wallet_alias (JStr recipient) mist)"

text \<open>What the caller of \<^verbatim>\<open>transfer\<close> gets, the events of the run, and the variables.\<close>

definition outcome :: "json act \<times> frame \<Rightarrow> py_error + json" where
  "outcome r = fst (fst r)"

definition events :: "json act \<times> frame \<Rightarrow> event list" where
  "events r = snd (fst r)"

definition final_frame :: "json act \<times> frame \<Rightarrow> frame" where
  "final_frame r = snd r"

section \<open>The transfer of \<^verbatim>\<open>MiaoWallet/sui_transfer.py\<close>\<close>

text \<open>
  The repository holds a second script, \<^verbatim>\<open>MiaoWallet/sui_transfer.py\<close>, with a
  \<^verbatim>\<open>transfer(wallet_alias, recipient, amount_sui)\<close> of its own (lines 112 to 177) and its
  own command line (lines 180 to 186). Its \<^verbatim>\<open>get_address_from_key\<close>, \<^verbatim>\<open>rpc_call\<close>,
  \<^verbatim>\<open>get_coins\<close>, \<^verbatim>\<open>build_transfer_tx\<close> and \<^verbatim>\<open>sign_and_execute\<close> have the statements of
  their namesakes in \<^verbatim>\<open>sui_transfer.py\<close>, and its lines 151 to 170 show and return the
  result of the broadcast as lines 258 to 279 of \<^verbatim>\<open>sui_transfer.py\<close> do (\<open>report\<close>). The
  script has no \<^verbatim>\<open>resolve_suins\<close>, \<^verbatim>\<open>save_wallet_address\<close>, \<^verbatim>\<open>dry_run\<close> or
  \<^verbatim>\<open>print_dry_run\<close>, and it never calls \<^verbatim>\<open>input\<close>.
\<close>

text \<open>Lines 134 to 170 of \<^verbatim>\<open>MiaoWallet/sui_transfer.py\<close>, the body of the \<^verbatim>\<open>try\<close> after
  line 130: the first coin, the unsigned transaction, and at once the signature.\<close>

definition transfer_body_MiaoWallet ::
  "world \<Rightarrow> lib \<Rightarrow> string \<Rightarrow> string \<Rightarrow> int \<Rightarrow> bytes \<Rightarrow> byte \<Rightarrow> json act" where
  "transfer_body_MiaoWallet w L sender recipient mist seed scheme =
     and_then (get_coins w sender) (\<lambda>coins.
     and_then (lift (py_item coins ''data'')) (\<lambda>data.
       if \<not> truthy data then and_then (say NoCoin) (\<lambda>_. ret JNull)
       else
         and_then (lift (py_index0 data)) (\<lambda>coin.
         and_then (lift (py_item coin ''coinObjectId'')) (\<lambda>coin_id.
         and_then (build_transfer_tx w sender (JStr recipient) mist coin_id 5000000) (\<lambda>tx_result.
         and_then (lift (py_item tx_result ''txBytes'')) (\<lambda>tx_bytes.
         and_then (sign_and_execute w L tx_bytes seed scheme) (report L)))))))"

text \<open>\<^verbatim>\<open>transfer(wallet_alias, recipient, amount_sui)\<close> of \<^verbatim>\<open>MiaoWallet/sui_transfer.py\<close>:
  the value or exception and the events. The messages are those of \<^verbatim>\<open>sui_transfer.py\<close>
  (lines 125, 136, 160 and 177 of this script).\<close>

definition transfer_MiaoWallet :: "world \<Rightarrow> lib \<Rightarrow> string \<Rightarrow> string \<Rightarrow> pyfloat \<Rightarrow> json act" where
  "transfer_MiaoWallet w L wallet_alias recipient amount_sui =
     (case amount_mist amount_sui of
        Inl e \<Rightarrow> (Inl e, [])
      | Inr mist \<Rightarrow>
          (case keyring_get_password w wallet_alias of
             Inl e \<Rightarrow> (Inl e, [Keychain wallet_alias])
           | Inr None \<Rightarrow> (Inr JNull, [Keychain wallet_alias, Say NoPrivateKey])
           | Inr (Some privkey) \<Rightarrow>
               if privkey = [] then (Inr JNull, [Keychain wallet_alias, Say NoPrivateKey])
               else (case (case get_address_from_key L privkey of
                             Inl e \<Rightarrow> (Inl e, [])
                           | Inr (seed, scheme, pk, sender) \<Rightarrow>
                               transfer_body_MiaoWallet w L sender recipient mist seed scheme) of
                       (r, es) \<Rightarrow> (r, [Keychain wallet_alias] @ es @ [Say KeyCleared]))))"

section \<open>The frames an exception keeps\<close>

text \<open>
  In Python an exception that leaves a function carries a traceback, which refers to the
  frame of every function the exception passed through, and a frame refers to the objects
  its local variables are bound to. The local variables of the callee in which the
  exception arose are therefore reachable from the exception (\<^verbatim>\<open>__traceback__\<close>,
  \<^verbatim>\<open>tb_next\<close>, \<^verbatim>\<open>tb_frame\<close>, \<^verbatim>\<open>f_locals\<close>) after \<^verbatim>\<open>transfer\<close> is left, as long as
  the exception is. The frame of a call that returned is not kept. The \<^verbatim>\<open>finally\<close> block
  of \<^verbatim>\<open>transfer\<close> rebinds and deletes two names of the frame of \<^verbatim>\<open>transfer\<close>; no
  statement of the scripts writes into an object that holds key material, and \<^verbatim>\<open>str\<close>
  and \<^verbatim>\<open>bytes\<close> objects cannot be written to. This is the behaviour of the language, not
  text of the repository.

  The objects that hold key material: the key string, its 5-bit groups, byte strings, and
  a \<^verbatim>\<open>SigningKey\<close> with its seed. An object is given by its content.
\<close>

datatype pyobj = StrObj string | GroupsObj "nat list" | BytesObj bytes | KeyObj bytes

type_synonym pylocals = "(string \<times> pyobj) list"

text \<open>
  The local variables of \<^verbatim>\<open>get_address_from_key\<close> that hold key material at the line
  where it raises (lines 43 to 48 of \<^verbatim>\<open>sui_transfer.py\<close>): the parameter, then
  \<^verbatim>\<open>data5bit\<close> when the string decodes, \<^verbatim>\<open>data8bit\<close> when the groups convert, and
  \<^verbatim>\<open>seed\<close> when there is a first byte. \<^verbatim>\<open>hrp\<close> and \<^verbatim>\<open>scheme\<close> are left out.
\<close>

definition get_address_from_key_locals :: "lib \<Rightarrow> string \<Rightarrow> pylocals" where
  "get_address_from_key_locals L privkey_bech32 =
     (''privkey_bech32'', StrObj privkey_bech32) #
     (case bech32_decode L privkey_bech32 of
        None \<Rightarrow> []
      | Some (hrp, data5bit) \<Rightarrow>
          (''data5bit'', GroupsObj data5bit) #
          (case convertbits_5_8 L data5bit of
             None \<Rightarrow> []
           | Some data8bit \<Rightarrow>
               (''data8bit'', BytesObj data8bit) #
               (case data8bit of
                  [] \<Rightarrow> []
                | scheme # rest \<Rightarrow> [(''seed'', BytesObj (take 32 rest))])))"

text \<open>
  The local variables of \<^verbatim>\<open>sign_and_execute\<close> that hold key material at the line where
  it raises (lines 159 to 175): the parameter \<^verbatim>\<open>seed\<close>, and \<^verbatim>\<open>sk\<close> once line 168 has
  run.
\<close>

definition sign_and_execute_locals :: "lib \<Rightarrow> json \<Rightarrow> bytes \<Rightarrow> pylocals" where
  "sign_and_execute_locals L tx_bytes_b64 seed =
     (''seed'', BytesObj seed) #
     (case (case tx_bytes_b64 of JStr s \<Rightarrow> b64decode L s | _ \<Rightarrow> Inl TypeError) of
        Inl e \<Rightarrow> []
      | Inr tx_bytes \<Rightarrow> (case SigningKey seed of Inl e \<Rightarrow> [] | Inr sk \<Rightarrow> [(''sk'', KeyObj sk)]))"

text \<open>
  The frames with key material that the exception leaving \<^verbatim>\<open>transfer\<close> keeps, with
  these variables; no frame when \<^verbatim>\<open>transfer\<close> returns, or when the exception arises in
  \<^verbatim>\<open>transfer\<close> itself or in a callee without key material. The frames of library
  functions are left out. The definitions follow the stages of \<^verbatim>\<open>transfer\<close> and take the
  control flow from them.
\<close>

type_synonym kept = "(string \<times> pylocals) list"

text \<open>Lines 241 to 256: the frame of \<^verbatim>\<open>sign_and_execute\<close> when it is called and raises.\<close>

definition kept_gate :: "world \<Rightarrow> lib \<Rightarrow> bool \<Rightarrow> json \<Rightarrow> bytes \<Rightarrow> byte \<Rightarrow> bool \<Rightarrow> kept" where
  "kept_gate w L auto_confirm tx_bytes seed scheme ok =
     (if \<not> ok then []
      else (case fst (confirm w auto_confirm) of
              Inl e \<Rightarrow> []
            | Inr yes \<Rightarrow>
                if \<not> yes then []
                else (case fst (sign_and_execute w L tx_bytes seed scheme) of
                        Inl e \<Rightarrow> [(''sign_and_execute'', sign_and_execute_locals L tx_bytes seed)]
                      | Inr result \<Rightarrow> [])))"

definition kept_simulate ::
  "world \<Rightarrow> lib \<Rightarrow> bool \<Rightarrow> string \<Rightarrow> json \<Rightarrow> json \<Rightarrow> bytes \<Rightarrow> byte \<Rightarrow> kept" where
  "kept_simulate w L auto_confirm sender recipient tx_bytes seed scheme =
     (case fst (dry_run w tx_bytes) of
        Inl e \<Rightarrow> []
      | Inr dry_result \<Rightarrow>
          (case fst (print_dry_run L dry_result sender recipient) of
             Inl e \<Rightarrow> []
           | Inr ok \<Rightarrow> kept_gate w L auto_confirm tx_bytes seed scheme ok))"

text \<open>Lines 220 to 234: the unsigned transaction \<^verbatim>\<open>tx_bytes\<close> when the run gets as far as
  the dry run.\<close>

definition built_tx :: "world \<Rightarrow> lib \<Rightarrow> string \<Rightarrow> json \<Rightarrow> int \<Rightarrow> json option" where
  "built_tx w L sender recipient mist =
     (case fst (get_coins w sender) of Inl e \<Rightarrow> None | Inr coins \<Rightarrow>
     (case py_item coins ''data'' of Inl e \<Rightarrow> None | Inr data \<Rightarrow>
        if \<not> truthy data then None
        else
     (case py_index0 data of Inl e \<Rightarrow> None | Inr coin \<Rightarrow>
     (case py_item coin ''coinObjectId'' of Inl e \<Rightarrow> None | Inr coin_id \<Rightarrow>
     (case py_get coin ''balance'' (JInt 0) of Inl e \<Rightarrow> None | Inr b \<Rightarrow>
     (case py_int L b of Inl e \<Rightarrow> None | Inr balance \<Rightarrow>
     (case as_float balance of Inl e \<Rightarrow> None | Inr _ \<Rightarrow>
     (case fst (build_transfer_tx w sender recipient mist coin_id 5000000) of Inl e \<Rightarrow> None | Inr tx_result \<Rightarrow>
     (case py_item tx_result ''txBytes'' of Inl e \<Rightarrow> None | Inr tx_bytes \<Rightarrow> Some tx_bytes)))))))))"

text \<open>Lines 216 to 279: the frame of \<^verbatim>\<open>get_address_from_key\<close> when it raises.\<close>

definition kept_try :: "world \<Rightarrow> lib \<Rightarrow> bool \<Rightarrow> string \<Rightarrow> json \<Rightarrow> int \<Rightarrow> string \<Rightarrow> kept" where
  "kept_try w L auto_confirm wallet_alias recipient mist privkey =
     (case get_address_from_key L privkey of
        Inl e \<Rightarrow> [(''get_address_from_key'', get_address_from_key_locals L privkey)]
      | Inr (seed, scheme, pk, sender) \<Rightarrow>
          (case fst (save_wallet_address w wallet_alias sender) of
             Inl e \<Rightarrow> []
           | Inr _ \<Rightarrow>
               (case built_tx w L sender recipient mist of
                  None \<Rightarrow> []
                | Some tx_bytes \<Rightarrow>
                    kept_simulate w L auto_confirm sender recipient tx_bytes seed scheme)))"

definition kept_with_wallet :: "world \<Rightarrow> lib \<Rightarrow> bool \<Rightarrow> string \<Rightarrow> json \<Rightarrow> int \<Rightarrow> kept" where
  "kept_with_wallet w L auto_confirm wallet_alias recipient mist =
     (case keyring_get_password w wallet_alias of
        Inl e \<Rightarrow> []
      | Inr None \<Rightarrow> []
      | Inr (Some privkey) \<Rightarrow>
          if privkey = [] then []
          else kept_try w L auto_confirm wallet_alias recipient mist privkey)"

definition kept_frames :: "world \<Rightarrow> lib \<Rightarrow> string \<Rightarrow> string \<Rightarrow> pyfloat \<Rightarrow> bool \<Rightarrow> kept" where
  "kept_frames w L wallet_alias recipient amount_sui auto_confirm =
     (case amount_mist amount_sui of
        Inl e \<Rightarrow> []
      | Inr mist \<Rightarrow>
          if endswith recipient ''.sui''
          then (case fst (resolve_suins w recipient) of
                  Inl e \<Rightarrow> []
                | Inr resolved \<Rightarrow>
                    if \<not> truthy resolved then []
                    else kept_with_wallet w L auto_confirm wallet_alias resolved mist)
          else kept_with_wallet w L auto_confirm wallet_alias (JStr recipient) mist)"

section \<open>Properties of a run\<close>

text \<open>An event of signing: the entry into \<^verbatim>\<open>sign_and_execute\<close> or the broadcast request.\<close>

definition is_signing :: "event \<Rightarrow> bool" where
  "is_signing ev =
     (case ev of
        SignInvoked \<Rightarrow> True
      | Call method params \<Rightarrow> method = ''sui_executeTransactionBlock''
      | _ \<Rightarrow> False)"

definition signs :: "event list \<Rightarrow> bool" where
  "signs es = list_ex is_signing es"

text \<open>The parameters of the dry-run requests among the events, in order.\<close>

fun dry_runs :: "event list \<Rightarrow> json list list" where
  "dry_runs [] = []"
| "dry_runs (ev # es) =
     (case ev of
        Call method params \<Rightarrow>
          if method = ''sui_dryRunTransactionBlock'' then params # dry_runs es else dry_runs es
      | _ \<Rightarrow> dry_runs es)"

text \<open>The lines printed, in order.\<close>

fun said :: "event list \<Rightarrow> msg list" where
  "said [] = []"
| "said (ev # es) = (case ev of Say m \<Rightarrow> m # said es | _ \<Rightarrow> said es)"

text \<open>The status \<^verbatim>\<open>print_dry_run\<close> reads from a dry-run result.\<close>

definition dry_run_status :: "json \<Rightarrow> py_error + json" where
  "dry_run_status result =
     (case effects_of result of Inl e \<Rightarrow> Inl e | Inr effects \<Rightarrow> status_of effects)"

text \<open>The events of a run without the prompt and the line of the automatic mode.\<close>

definition without_confirmation :: "event list \<Rightarrow> event list" where
  "without_confirmation es = filter (\<lambda>ev. ev \<noteq> Prompt \<and> ev \<noteq> Say AutoConfirm) es"

text \<open>
  The two shapes of a run of \<^verbatim>\<open>transfer\<close> or of one of its parts: it ends before the dry
  run, with an exception or with \<^verbatim>\<open>None\<close> after one of the three early messages, and has
  neither signed nor simulated; or it consists of events without signature, dry run and
  prompt, the events of the simulation stage, and again events without signature, dry run
  and prompt, and ends as the simulation stage ends.
\<close>

definition quiet :: "event list \<Rightarrow> bool" where
  "quiet es = (\<not> signs es \<and> dry_runs es = [] \<and> Prompt \<notin> set es)"

definition ends_early :: "json act \<Rightarrow> bool" where
  "ends_early X =
     (quiet (snd X) \<and>
      (isl (fst X) \<or>
       (fst X = Inr JNull \<and>
        (CannotResolveName \<in> set (said (snd X)) \<or> NoPrivateKey \<in> set (said (snd X)) \<or>
         NoCoin \<in> set (said (snd X))))))"

definition reaches_simulation :: "world \<Rightarrow> lib \<Rightarrow> bool \<Rightarrow> json act \<Rightarrow> bool" where
  "reaches_simulation w L a X =
     (\<exists>pre post sender rcp tx seed scheme.
        snd X = pre @ snd (transfer_simulate w L a sender rcp tx seed scheme) @ post \<and>
        fst X = fst (transfer_simulate w L a sender rcp tx seed scheme) \<and>
        quiet pre \<and> quiet post)"

definition pipeline_shape :: "world \<Rightarrow> lib \<Rightarrow> bool \<Rightarrow> json act \<Rightarrow> bool" where
  "pipeline_shape w L a X = (ends_early X \<or> reaches_simulation w L a X)"

text \<open>Two runs that end alike and differ at most in the prompt and the line of the
  automatic mode.\<close>

definition agree :: "'a act \<Rightarrow> 'a act \<Rightarrow> bool" where
  "agree X Y = (fst X = fst Y \<and> without_confirmation (snd X) = without_confirmation (snd Y))"

section \<open>Example inputs\<close>

text \<open>
  A key in the \<^verbatim>\<open>suiprivkey\<close> format for scheme 0 and the seed of bytes 1 to 32, with its
  5-bit groups; a key of the same format with a seed of three bytes; and the Bech32 string
  \<^verbatim>\<open>a12uel5l\<close>, which has no data. Only \<^verbatim>\<open>a12uel5l\<close> is a published test vector
  (BIP 173). The two keys and their 5-bit groups were computed with the Bech32 algorithm
  of BIP 173, not with the \<^verbatim>\<open>bech32\<close> package the code imports.
\<close>

definition example_seed :: bytes where
  "example_seed = map of_nat [1 ..< 33]"

definition example_key :: string where
  "example_key = ''suiprivkey1qqqsyqcyq5rqwzqfpg9scrgwpugpzysnzs23v9ccrydpk8qarc0jqa4ffsr''"

definition example_data5 :: "nat list" where
  "example_data5 =
     [0, 0, 0, 16, 4, 0, 24, 4, 0, 20, 3, 0, 14, 2, 0, 9, 1, 8, 5, 16, 24, 3, 8, 14, 1, 28, 8,
      1, 2, 4, 16, 19, 2, 16, 10, 17, 12, 5, 24, 24, 3, 4, 13, 1, 22, 7, 0, 29, 3, 24, 15, 18, 0]"

definition short_key :: string where
  "short_key = ''suiprivkey1qqqsyqcxkw5ed''"

text \<open>
  A library for the examples: a table for the Bech32 functions on the three strings above
  (every other string is rejected), and stand-ins of the documented sizes for the key
  pair, the signature, the hash and base64. The stand-ins are not Ed25519, BLAKE2b or
  base64: the addresses and signatures of the examples are not those of the real
  libraries.
\<close>

definition example_lib :: lib where
  "example_lib =
     \<lparr> bech32_decode = (\<lambda>s. if s = example_key then Some (''suiprivkey'', example_data5)
                            else if s = short_key then Some (''suiprivkey'', [0, 0, 0, 16, 4, 0, 24])
                            else if s = ''a12uel5l'' then Some (''a'', [])
                            else None),
       convertbits_5_8 = (\<lambda>d. if d = example_data5 then Some (0 # example_seed)
                              else if d = [0, 0, 0, 16, 4, 0, 24] then Some [0, 1, 2, 3]
                              else if d = [] then Some []
                              else None),
       ed25519_public = (\<lambda>seed. take 32 (rev seed @ replicate 32 0)),
       ed25519_sign = (\<lambda>seed m. take 64 (seed @ m @ replicate 64 0)),
       blake2b_256 = (\<lambda>m. take 32 (m @ replicate 32 0)),
       b64decode = (\<lambda>s. if s = ''AAEC'' then Inr [0, 1, 2] else Inl BinasciiError),
       b64encode = hexdigest,
       int_of_str = (\<lambda>s. if s = ''1000000000'' then Some 1000000000
                         else if s = ''1000000'' then Some 1000000 else None) \<rparr>"

text \<open>
  Worlds for the examples: a keychain with one entry \<^verbatim>\<open>sui1\<close>, a node that answers
  \<^verbatim>\<open>suix_getCoins\<close> with the given coins, the dry run and the broadcast with the given
  effects, and an operator who types the given answer. In \<open>example_world\<close> the key is the
  example key, there is one coin, the node accepts the transfer and the operator types
  \<^verbatim>\<open>y\<close>.
\<close>

definition ok_effects :: json where
  "ok_effects =
     JObj [(''status'', JObj [(''status'', JStr ''success'')]),
           (''gasUsed'', JObj [(''computationCost'', JStr ''1000000'')])]"

definition failed_effects :: json where
  "failed_effects =
     JObj [(''status'', JObj [(''status'', JStr ''failure''), (''error'', JStr ''insufficient gas'')])]"

definition example_post :: "json \<Rightarrow> json \<Rightarrow> json \<Rightarrow> string \<Rightarrow> json list \<Rightarrow> py_error + json" where
  "example_post coins dry_effects final_effects method params =
     (if method = ''suix_getCoins'' then Inr (JObj [(''result'', JObj [(''data'', coins)])])
      else if method = ''unsafe_paySui'' then Inr (JObj [(''result'', JObj [(''txBytes'', JStr ''AAEC'')])])
      else if method = ''sui_dryRunTransactionBlock''
        then Inr (JObj [(''result'', JObj [(''effects'', dry_effects)])])
      else if method = ''sui_executeTransactionBlock''
        then Inr (JObj [(''result'', JObj [(''digest'', JStr ''D1''), (''effects'', final_effects)])])
      else Inl RequestException)"

definition one_coin :: json where
  "one_coin = JArr [JObj [(''coinObjectId'', JStr ''0xc0''), (''balance'', JStr ''1000000000'')]]"

definition world_of :: "string option \<Rightarrow> json \<Rightarrow> json \<Rightarrow> json \<Rightarrow> string \<Rightarrow> world" where
  "world_of key coins dry_effects final_effects answer =
     \<lparr> keyring_get_password = (\<lambda>a. if a = ''sui1'' then Inr key else Inr None),
       rpc_post = example_post coins dry_effects final_effects,
       stdin_line = Some answer,
       addr_file = NoFile,
       addr_file_writable = True \<rparr>"

definition example_world :: world where
  "example_world = world_of (Some example_key) one_coin ok_effects ok_effects ''y''"

text \<open>
  Two more worlds. In \<open>refusing_world\<close> the node reports the failure of the dry run and
  the operator types \<^verbatim>\<open>n\<close>. In \<open>broadcast_down\<close> the node answers as in the example
  world until the broadcast, where the request raises (the node is not reached, or the
  request times out).
\<close>

definition refusing_world :: world where
  "refusing_world = world_of (Some example_key) one_coin failed_effects ok_effects ''n''"

definition broadcast_down :: world where
  "broadcast_down =
     example_world
       \<lparr> rpc_post := (\<lambda>method params.
            if method = ''sui_executeTransactionBlock'' then Inl RequestException
            else example_post one_coin ok_effects ok_effects method params) \<rparr>"

text \<open>The address of the example key with the example library, and the result of a
  broadcast with given effects.\<close>

definition example_sender :: string where
  "example_sender = address_of example_lib 0 (ed25519_public example_lib example_seed)"

definition broadcast_result :: "json \<Rightarrow> json" where
  "broadcast_result final_effects = JObj [(''digest'', JStr ''D1''), (''effects'', final_effects)]"

text \<open>The doubles \<^verbatim>\<open>float("0.01")\<close> and \<^verbatim>\<open>float("2.01")\<close>.\<close>

definition float_0_01 :: pyfloat where
  "float_0_01 = Finite 5764607523034235 (- 59)"

definition float_2_01 :: pyfloat where
  "float_2_01 = Finite 4526117625507348 (- 51)"

section \<open>Sequencing and events\<close>

lemma and_then_Inl [simp]: "and_then (Inl e, es) f = (Inl e, es)"
  by (simp add: and_then_def)

lemma and_then_Inr [simp]: "and_then (Inr x, es) f = (fst (f x), es @ snd (f x))"
  by (simp add: and_then_def split: prod.splits)

lemma and_then_lift [simp]:
  "and_then (lift r) f = (case r of Inl e \<Rightarrow> (Inl e, []) | Inr x \<Rightarrow> f x)"
  by (simp add: lift_def split: sum.splits)

lemma and_then_say [simp]: "and_then (say m) f = (fst (f ()), Say m # snd (f ()))"
  by (simp add: say_def)

lemma fst_and_then: "fst (and_then m f) = (case fst m of Inl e \<Rightarrow> Inl e | Inr x \<Rightarrow> fst (f x))"
  by (cases m) (auto split: sum.splits)

lemma snd_and_then: "snd (and_then m f) = (case fst m of Inl e \<Rightarrow> snd m | Inr x \<Rightarrow> snd m @ snd (f x))"
  by (cases m) (auto split: sum.splits)

lemma signs_simps [simp]:
  "signs [] = False"
  "signs (ev # es) = (is_signing ev \<or> signs es)"
  "signs (es @ es') = (signs es \<or> signs es')"
  by (auto simp: signs_def)

lemma is_signing_simps [simp]:
  "is_signing SignInvoked"
  "is_signing (Call m ps) = (m = ''sui_executeTransactionBlock'')"
  "\<not> is_signing (Keychain a)"
  "\<not> is_signing Prompt"
  "\<not> is_signing (WriteFile kvs)"
  "\<not> is_signing (Say msg)"
  by (simp_all add: is_signing_def)

lemma dry_runs_append [simp]: "dry_runs (es @ es') = dry_runs es @ dry_runs es'"
  by (induction es) (auto split: event.splits)

lemma said_append [simp]: "said (es @ es') = said es @ said es'"
  by (induction es) (auto split: event.splits)

lemma snd_rpc_call [simp]: "snd (rpc_call w m ps) = [Call m ps]"
  by (simp add: rpc_call_def)

lemma py_eq_str [simp]: "py_eq v (JStr s) = (v = JStr s)"
  by (cases v) (auto simp: number_of_def)

subsection \<open>The preview\<close>

lemma print_dry_run_events:
  "snd (print_dry_run L dry sender rcp) = [] \<or>
   snd (print_dry_run L dry sender rcp) = [Say SimulationOk] \<or>
   snd (print_dry_run L dry sender rcp) = [Say SimulationFailed]"
  by (simp add: print_dry_run_def ret_def split: sum.splits)

lemma print_dry_run_fst:
  "fst (print_dry_run L dry sender rcp) =
     (case effects_of dry of
        Inl e \<Rightarrow> Inl e
      | Inr effects \<Rightarrow>
          (case status_of effects of
             Inl e \<Rightarrow> Inl e
           | Inr status \<Rightarrow>
               (case gas_used L effects of
                  Inl e \<Rightarrow> Inl e
                | Inr g \<Rightarrow>
                    if status = JStr ''success''
                    then (case show_preview L dry sender rcp g of Inl e \<Rightarrow> Inl e | Inr _ \<Rightarrow> Inr True)
                    else Inr False)))"
  by (simp add: print_dry_run_def ret_def split: sum.splits)

lemma print_dry_run_True:
  "fst (print_dry_run L dry sender rcp) = Inr True \<Longrightarrow> dry_run_status dry = Inr (JStr ''success'')"
  by (auto simp: print_dry_run_fst dry_run_status_def split: sum.splits if_splits)

lemma print_dry_run_not_success:
  "dry_run_status dry \<noteq> Inr (JStr ''success'') \<Longrightarrow> fst (print_dry_run L dry sender rcp) \<noteq> Inr True"
  using print_dry_run_True by blast

subsection \<open>The gate\<close>

lemma confirm_events [simp]: "\<not> signs (snd (confirm w a))" "dry_runs (snd (confirm w a)) = []"
  by (auto simp: confirm_def Let_def split: option.splits)

lemma confirm_auto [simp]: "confirm w True = (Inr True, [Say AutoConfirm])"
  by (simp add: confirm_def)

lemma report_events:
  "snd (report L result) = [] \<or> (\<exists>b. snd (report L result) = [Say (FinalStatus b)])"
  by (simp add: report_def ret_def split: sum.splits)

lemma report_fst:
  "fst (report L result) = Inr v \<Longrightarrow>
     v = result \<and> (\<exists>kvs. result = JObj kvs) \<and>
     snd (report L result) = [Say (FinalStatus (dry_run_status result = Inr (JStr ''success'')))]"
  by (auto simp: report_def ret_def effects_of_def dry_run_status_def py_get_def
        split: sum.splits json.splits)

lemma sign_and_execute_events:
  "\<exists>es. snd (sign_and_execute w L tx seed scheme) = SignInvoked # es \<and> dry_runs es = [] \<and> said es = []"
  by (auto simp: sign_and_execute_def split: sum.splits json.splits)

lemma signed_events:
  "\<exists>es. snd (and_then (sign_and_execute w L tx seed scheme) (report L)) = SignInvoked # es \<and> dry_runs es = []"
proof -
  obtain es where es: "snd (sign_and_execute w L tx seed scheme) = SignInvoked # es" "dry_runs es = []"
    using sign_and_execute_events by blast
  show ?thesis
  proof (cases "fst (sign_and_execute w L tx seed scheme)")
    case (Inl e)
    then show ?thesis using es by (simp add: snd_and_then)
  next
    case (Inr r)
    from report_events [of L r] have "dry_runs (snd (report L r)) = []" by auto
    then show ?thesis using es Inr by (simp add: snd_and_then)
  qed
qed

lemma gate_signs:
  "signs (snd (transfer_gate w L a tx seed scheme ok)) = (ok \<and> fst (confirm w a) = Inr True)"
proof (cases ok)
  case False
  then show ?thesis by (simp add: transfer_gate_def ret_def)
next
  case True
  obtain es where es: "snd (and_then (sign_and_execute w L tx seed scheme) (report L)) = SignInvoked # es"
    using signed_events by blast
  show ?thesis
  proof (cases "fst (confirm w a)")
    case (Inl e)
    then show ?thesis using True by (simp add: transfer_gate_def snd_and_then)
  next
    case (Inr yes)
    then show ?thesis using True es
      by (cases yes) (simp_all add: transfer_gate_def snd_and_then ret_def)
  qed
qed

lemma gate_dry_runs [simp]: "dry_runs (snd (transfer_gate w L a tx seed scheme ok)) = []"
proof -
  obtain es where es: "snd (and_then (sign_and_execute w L tx seed scheme) (report L)) = SignInvoked # es" "dry_runs es = []"
    using signed_events by blast
  then show ?thesis
    by (simp add: transfer_gate_def snd_and_then ret_def split: sum.splits)
qed

lemma sign_and_execute_fst:
  "fst (sign_and_execute w L tx seed scheme) = Inr r \<Longrightarrow>
     \<exists>ps. snd (sign_and_execute w L tx seed scheme) = [SignInvoked, Call ''sui_executeTransactionBlock'' ps] \<and>
          fst (rpc_call w ''sui_executeTransactionBlock'' ps) = Inr r"
  by (auto simp: sign_and_execute_def split: sum.splits json.splits)

lemma gate_fst_None:
  "fst (transfer_gate w L a tx seed scheme ok) = Inr JNull \<Longrightarrow>
     \<not> signs (snd (transfer_gate w L a tx seed scheme ok)) \<and>
     (CancelledAfterDryRun \<in> set (said (snd (transfer_gate w L a tx seed scheme ok))) \<or>
      UserCancelled \<in> set (said (snd (transfer_gate w L a tx seed scheme ok))))"
proof (cases ok)
  case False
  then show ?thesis by (simp add: transfer_gate_def ret_def)
next
  case True
  assume h: "fst (transfer_gate w L a tx seed scheme ok) = Inr JNull"
  show ?thesis
  proof (cases "fst (confirm w a)")
    case (Inl e)
    then show ?thesis using True h by (simp add: transfer_gate_def fst_and_then)
  next
    case (Inr yes)
    show ?thesis
    proof (cases yes)
      case False
      have "said (snd (confirm w a)) = said (snd (confirm w a))" ..
      then show ?thesis using True Inr False
        by (simp add: transfer_gate_def fst_and_then snd_and_then ret_def)
    next
      case yes: True
      from h True Inr yes have "fst (and_then (sign_and_execute w L tx seed scheme) (report L)) = Inr JNull"
        by (simp add: transfer_gate_def fst_and_then)
      then obtain r where "fst (report L r) = Inr JNull"
        by (auto simp: fst_and_then split: sum.splits)
      then show ?thesis using report_fst by blast
    qed
  qed
qed

lemma gate_fst_result:
  assumes "fst (transfer_gate w L a tx seed scheme ok) = Inr v" "v \<noteq> JNull"
  shows "\<exists>ps. Call ''sui_executeTransactionBlock'' ps \<in> set (snd (transfer_gate w L a tx seed scheme ok)) \<and>
           fst (rpc_call w ''sui_executeTransactionBlock'' ps) = Inr v \<and>
           FinalStatus (dry_run_status v = Inr (JStr ''success''))
             \<in> set (said (snd (transfer_gate w L a tx seed scheme ok)))"
proof -
  from assms have ok: ok by (cases ok) (simp_all add: transfer_gate_def ret_def)
  from assms ok obtain yes where c: "fst (confirm w a) = Inr yes"
    by (cases "fst (confirm w a)") (simp_all add: transfer_gate_def fst_and_then)
  from assms ok c have yes: yes by (cases yes) (simp_all add: transfer_gate_def fst_and_then ret_def)
  from assms ok c yes have "fst (and_then (sign_and_execute w L tx seed scheme) (report L)) = Inr v"
    by (simp add: transfer_gate_def fst_and_then)
  then obtain r where r: "fst (sign_and_execute w L tx seed scheme) = Inr r" "fst (report L r) = Inr v"
    by (auto simp: fst_and_then split: sum.splits)
  from sign_and_execute_fst [OF r(1)] obtain ps where
    ps: "snd (sign_and_execute w L tx seed scheme) = [SignInvoked, Call ''sui_executeTransactionBlock'' ps]"
        "fst (rpc_call w ''sui_executeTransactionBlock'' ps) = Inr r" by blast
  from report_fst [OF r(2)] have b: "v = r"
      "snd (report L r) = [Say (FinalStatus (dry_run_status r = Inr (JStr ''success'')))]" by blast+
  have "snd (transfer_gate w L a tx seed scheme ok) =
          snd (confirm w a) @ [SignInvoked, Call ''sui_executeTransactionBlock'' ps,
                               Say (FinalStatus (dry_run_status r = Inr (JStr ''success'')))]"
    using ok c yes r ps b by (simp add: transfer_gate_def snd_and_then)
  then show ?thesis using ps b by auto
qed

subsection \<open>The simulation stage\<close>

lemma simulate_snd:
  "snd (transfer_simulate w L a sender rcp tx seed scheme) =
     Call ''sui_dryRunTransactionBlock'' [tx] #
       (case fst (dry_run w tx) of
          Inl e \<Rightarrow> []
        | Inr dry \<Rightarrow>
            snd (print_dry_run L dry sender rcp) @
            (case fst (print_dry_run L dry sender rcp) of
               Inl e \<Rightarrow> []
             | Inr ok \<Rightarrow> snd (transfer_gate w L a tx seed scheme ok)))"
  by (simp add: transfer_simulate_def snd_and_then dry_run_def split: sum.splits)

lemma simulate_fst:
  "fst (transfer_simulate w L a sender rcp tx seed scheme) =
     (case fst (dry_run w tx) of
        Inl e \<Rightarrow> Inl e
      | Inr dry \<Rightarrow>
          (case fst (print_dry_run L dry sender rcp) of
             Inl e \<Rightarrow> Inl e
           | Inr ok \<Rightarrow> fst (transfer_gate w L a tx seed scheme ok)))"
  by (simp add: transfer_simulate_def fst_and_then split: sum.splits)

lemma print_dry_run_quiet [simp]:
  "\<not> signs (snd (print_dry_run L dry sender rcp))" "dry_runs (snd (print_dry_run L dry sender rcp)) = []"
  using print_dry_run_events [of L dry sender rcp] by auto

lemma simulate_dry_runs [simp]:
  "dry_runs (snd (transfer_simulate w L a sender rcp tx seed scheme)) = [[tx]]"
  by (simp add: simulate_snd split: sum.splits)

lemma simulate_signs:
  "signs (snd (transfer_simulate w L a sender rcp tx seed scheme)) =
     (\<exists>dry. fst (dry_run w tx) = Inr dry \<and> fst (print_dry_run L dry sender rcp) = Inr True \<and>
            fst (confirm w a) = Inr True)"
  by (auto simp: simulate_snd gate_signs split: sum.splits)

lemma simulate_head:
  "\<exists>rest. snd (transfer_simulate w L a sender rcp tx seed scheme) =
            Call ''sui_dryRunTransactionBlock'' [tx] # rest"
  by (simp add: simulate_snd)

lemma simulate_fst_None:
  assumes "fst (transfer_simulate w L a sender rcp tx seed scheme) = Inr JNull"
  shows "\<not> signs (snd (transfer_simulate w L a sender rcp tx seed scheme)) \<and>
         (CancelledAfterDryRun \<in> set (said (snd (transfer_simulate w L a sender rcp tx seed scheme))) \<or>
          UserCancelled \<in> set (said (snd (transfer_simulate w L a sender rcp tx seed scheme))))"
proof -
  from assms obtain dry ok where
    d: "fst (dry_run w tx) = Inr dry" "fst (print_dry_run L dry sender rcp) = Inr ok"
       "fst (transfer_gate w L a tx seed scheme ok) = Inr JNull"
    by (auto simp: simulate_fst split: sum.splits)
  from gate_fst_None [OF d(3)] d(1,2) show ?thesis
    by (auto simp: simulate_snd)
qed

lemma simulate_fst_result:
  assumes "fst (transfer_simulate w L a sender rcp tx seed scheme) = Inr v" "v \<noteq> JNull"
  shows "\<exists>ps. Call ''sui_executeTransactionBlock'' ps \<in> set (snd (transfer_simulate w L a sender rcp tx seed scheme)) \<and>
           fst (rpc_call w ''sui_executeTransactionBlock'' ps) = Inr v \<and>
           FinalStatus (dry_run_status v = Inr (JStr ''success''))
             \<in> set (said (snd (transfer_simulate w L a sender rcp tx seed scheme)))"
proof -
  from assms obtain dry ok where
    d: "fst (dry_run w tx) = Inr dry" "fst (print_dry_run L dry sender rcp) = Inr ok"
       "fst (transfer_gate w L a tx seed scheme ok) = Inr v"
    by (auto simp: simulate_fst split: sum.splits)
  from gate_fst_result [OF d(3) assms(2)] d(1,2) show ?thesis
    by (auto simp: simulate_snd)
qed

lemma simulate_blocked:
  assumes "fst (dry_run w tx) = Inr dry" "fst (print_dry_run L dry sender rcp) \<noteq> Inr True"
  shows "\<not> signs (snd (transfer_simulate w L a sender rcp tx seed scheme)) \<and>
         (fst (transfer_simulate w L a sender rcp tx seed scheme) = Inr JNull \<or>
          isl (fst (transfer_simulate w L a sender rcp tx seed scheme)))"
proof -
  have "\<not> signs (snd (transfer_simulate w L a sender rcp tx seed scheme))"
    using assms by (simp add: simulate_signs)
  moreover have "fst (transfer_simulate w L a sender rcp tx seed scheme) = Inr JNull \<or>
          isl (fst (transfer_simulate w L a sender rcp tx seed scheme))"
  proof (cases "fst (print_dry_run L dry sender rcp)")
    case (Inl e)
    then show ?thesis using assms by (simp add: simulate_fst)
  next
    case (Inr ok)
    with assms have "\<not> ok" by auto
    then show ?thesis using assms Inr by (simp add: simulate_fst transfer_gate_def ret_def)
  qed
  ultimately show ?thesis by blast
qed

subsection \<open>The stages before the simulation\<close>

lemma quiet_simps [simp]:
  "quiet []"
  "quiet (es @ es') = (quiet es \<and> quiet es')"
  "quiet (Say m # es) = quiet es"
  "quiet (Keychain k # es) = quiet es"
  "quiet (WriteFile kvs # es) = quiet es"
  by (auto simp: quiet_def)

lemma quiet_Call:
  "m \<noteq> ''sui_executeTransactionBlock'' \<Longrightarrow> m \<noteq> ''sui_dryRunTransactionBlock'' \<Longrightarrow>
     quiet (Call m ps # es) = quiet es"
  by (auto simp: quiet_def)

lemma shape_extend:
  assumes "pipeline_shape w L a X" "quiet es" "quiet es'"
  shows "pipeline_shape w L a (fst X, es @ snd X @ es')"
  using assms(1) unfolding pipeline_shape_def
proof
  assume "ends_early X"
  then have "ends_early (fst X, es @ snd X @ es')"
    using assms(2,3) by (auto simp: ends_early_def)
  then show "ends_early (fst X, es @ snd X @ es') \<or> reaches_simulation w L a (fst X, es @ snd X @ es')" ..
next
  assume "reaches_simulation w L a X"
  then obtain pre post sender rcp tx seed scheme where
    h: "snd X = pre @ snd (transfer_simulate w L a sender rcp tx seed scheme) @ post"
       "fst X = fst (transfer_simulate w L a sender rcp tx seed scheme)" "quiet pre" "quiet post"
    unfolding reaches_simulation_def by blast
  have "snd (fst X, es @ snd X @ es') =
          (es @ pre) @ snd (transfer_simulate w L a sender rcp tx seed scheme) @ (post @ es')"
    using h(1) by simp
  moreover have "quiet (es @ pre)" "quiet (post @ es')" using h assms by simp_all
  ultimately have "reaches_simulation w L a (fst X, es @ snd X @ es')"
    unfolding reaches_simulation_def using h(2) by (metis fst_conv)
  then show "ends_early (fst X, es @ snd X @ es') \<or> reaches_simulation w L a (fst X, es @ snd X @ es')" ..
qed

lemma shape_raise: "quiet es \<Longrightarrow> pipeline_shape w L a (Inl e, es)"
  by (simp add: pipeline_shape_def ends_early_def)

lemma shape_and_then:
  assumes "quiet (snd m)" "\<And>x. fst m = Inr x \<Longrightarrow> pipeline_shape w L a (f x)"
  shows "pipeline_shape w L a (and_then m f)"
proof (cases "fst m")
  case (Inl e)
  then have "and_then m f = (Inl e, snd m)" by (cases m) simp
  then show ?thesis using assms(1) by (simp add: shape_raise)
next
  case (Inr x)
  then have "and_then m f = (fst (f x), snd m @ snd (f x) @ [])" by (cases m) simp
  then show ?thesis using shape_extend [OF assms(2) [OF Inr] assms(1), of "[]"] by simp
qed

lemma shape_lift:
  assumes "\<And>x. r = Inr x \<Longrightarrow> pipeline_shape w L a (f x)"
  shows "pipeline_shape w L a (and_then (lift r) f)"
  by (rule shape_and_then) (use assms in \<open>simp_all add: lift_def\<close>)

lemma shape_simulate: "pipeline_shape w L a (transfer_simulate w L a sender rcp tx seed scheme)"
proof -
  have "reaches_simulation w L a (transfer_simulate w L a sender rcp tx seed scheme)"
    unfolding reaches_simulation_def
    by (rule exI [of _ "[]"], rule exI [of _ "[]"], rule exI [of _ sender], rule exI [of _ rcp],
        rule exI [of _ tx], rule exI [of _ seed], rule exI [of _ scheme]) simp
  then show ?thesis by (simp add: pipeline_shape_def)
qed

lemma shape_build: "pipeline_shape w L a (transfer_build w L a sender rcp mist seed scheme)"
  unfolding transfer_build_def
  apply (rule shape_and_then)
   apply (simp add: get_coins_def quiet_Call)
  apply (rule shape_lift)
  apply (simp only: split: if_split)
  apply (intro conjI impI)
   apply (simp add: pipeline_shape_def ends_early_def ret_def)
  apply (intro shape_lift)
  apply (rule shape_and_then)
   apply (simp add: build_transfer_tx_def quiet_Call)
  apply (rule shape_lift)
  apply (rule shape_simulate)
  done

lemma save_wallet_address_quiet [simp]: "quiet (snd (save_wallet_address w al ad))"
  by (simp add: save_wallet_address_def split: file_state.splits sum.splits json.splits)

lemma shape_try: "pipeline_shape w L a (fst (transfer_try w L a al rcp mist k))"
  by (auto simp: transfer_try_def shape_raise split: sum.splits intro!: shape_and_then shape_build)

lemma shape_with_wallet: "pipeline_shape w L a (fst (transfer_with_wallet w L a al rcp mist))"
proof -
  have early: "pipeline_shape w L a (Inr JNull, [Keychain al, Say NoPrivateKey])"
    by (simp add: pipeline_shape_def ends_early_def)
  show ?thesis
  proof (cases "keyring_get_password w al")
    case (Inl e)
    then show ?thesis by (simp add: transfer_with_wallet_def shape_raise)
  next
    case (Inr p)
    show ?thesis
    proof (cases p)
      case None
      then show ?thesis using Inr early by (simp add: transfer_with_wallet_def)
    next
      case (Some k)
      show ?thesis
      proof (cases "k = []")
        case True
        then show ?thesis using Inr Some early by (simp add: transfer_with_wallet_def)
      next
        case False
        obtain r es sv where t: "transfer_try w L a al rcp mist k = ((r, es), sv)"
          by (metis surj_pair)
        have "pipeline_shape w L a (fst (fst (transfer_try w L a al rcp mist k)),
                [Keychain al] @ snd (fst (transfer_try w L a al rcp mist k)) @ [Say KeyCleared])"
          by (rule shape_extend [OF shape_try]) simp_all
        then show ?thesis using Inr Some False t by (simp add: transfer_with_wallet_def)
      qed
    qed
  qed
qed

lemma resolve_suins_quiet [simp]: "quiet (snd (resolve_suins w name))"
  by (simp add: resolve_suins_def quiet_Call rpc_call_def split: prod.splits sum.splits)

lemma resolve_suins_fst: "\<exists>v. fst (resolve_suins w name) = Inr v"
  by (simp add: resolve_suins_def split: prod.splits sum.splits)

lemma shape_transfer: "pipeline_shape w L a (fst (transfer w L al rcp amt a))"
proof (cases "amount_mist amt")
  case (Inl e)
  then show ?thesis by (simp add: transfer_def shape_raise)
next
  case (Inr mist)
  show ?thesis
  proof (cases "endswith rcp ''.sui''")
    case False
    then show ?thesis using Inr by (simp add: transfer_def shape_with_wallet)
  next
    case True
    obtain v es where r: "resolve_suins w rcp = (Inr v, es)"
      using resolve_suins_fst [of w rcp] by (metis prod.collapse)
    have q: "quiet es" using resolve_suins_quiet [of w rcp] r by simp
    show ?thesis
    proof (cases "truthy v")
      case False
      then show ?thesis using Inr True r q
        by (simp add: transfer_def pipeline_shape_def ends_early_def)
    next
      case tv: True
      obtain r' es' fr where t: "transfer_with_wallet w L a al v mist = ((r', es'), fr)"
        by (metis surj_pair)
      have "pipeline_shape w L a (fst (fst (transfer_with_wallet w L a al v mist)),
              es @ snd (fst (transfer_with_wallet w L a al v mist)) @ [])"
        by (rule shape_extend [OF shape_with_wallet q]) simp
      then show ?thesis using Inr True r tv t by (simp add: transfer_def)
    qed
  qed
qed

subsection \<open>The example library\<close>

lemma example_seed_length [simp]: "length example_seed = 32"
  by (simp add: example_seed_def)

lemma example_lib_sizes: "lib_sizes example_lib"
  by (auto simp add: lib_sizes_def example_lib_def)

lemma example_lib_decode [simp]:
  "bech32_decode example_lib example_key = Some (''suiprivkey'', example_data5)"
  "bech32_decode example_lib ''a12uel5l'' = Some (''a'', [])"
  "bech32_decode example_lib short_key = Some (''suiprivkey'', [0, 0, 0, 16, 4, 0, 24])"
  "bech32_decode example_lib [] = None"
  "convertbits_5_8 example_lib example_data5 = Some (0 # example_seed)"
  "convertbits_5_8 example_lib [] = Some []"
  "convertbits_5_8 example_lib [0, 0, 0, 16, 4, 0, 24] = Some [0, 1, 2, 3]"
  by (simp_all add: example_lib_def example_key_def short_key_def example_data5_def)

lemma example_lib_codec [simp]:
  "b64decode example_lib ''AAEC'' = Inr [0, 1, 2]"
  "int_of_str example_lib ''1000000000'' = Some 1000000000"
  "int_of_str example_lib ''1000000'' = Some 1000000"
  by (simp_all add: example_lib_def)

lemma example_key_prefix [simp]: "startswith example_key ''suiprivkey1''" "example_key \<noteq> []"
  by (simp_all add: startswith_def example_key_def)

lemma sig_bytes_value:
  assumes "length seed = 32"
  shows "sig_bytes L tx_bytes seed scheme =
           Inr ([scheme] @ ed25519_sign L seed (blake2b_256 L ([0, 0, 0] @ tx_bytes)) @ ed25519_public L seed)"
  using assms by (simp add: sig_bytes_def SigningKey_def intent_msg_def Let_def)

section \<open>The claims\<close>

text \<open>
  Claim C4. For every transaction byte string and every 32-byte seed, \<^verbatim>\<open>sign_and_execute\<close>
  hashes the three zero bytes followed by the transaction with BLAKE2b-256, signs the
  digest with the seed, and sends the envelope made of the scheme byte, the signature and
  the public key: with a library of the documented sizes the digest has 32 bytes, the
  signature 64, the public key 32 and the envelope 97, whatever the length of the
  transaction. The envelope goes out in base64 in the broadcast request.
\<close>

theorem signature_envelope_layout:
  assumes "lib_sizes L" and "length seed = 32" and "b64decode L tx_b64 = Inr tx_bytes"
  shows "sig_bytes L tx_bytes seed scheme =
           Inr ([scheme] @ ed25519_sign L seed (blake2b_256 L ([0, 0, 0] @ tx_bytes)) @ ed25519_public L seed) \<and>
         length (blake2b_256 L ([0, 0, 0] @ tx_bytes)) = 32 \<and>
         length (ed25519_sign L seed (blake2b_256 L ([0, 0, 0] @ tx_bytes))) = 64 \<and>
         length (ed25519_public L seed) = 32 \<and>
         length ([scheme] @ ed25519_sign L seed (blake2b_256 L ([0, 0, 0] @ tx_bytes)) @ ed25519_public L seed) = 97 \<and>
         snd (sign_and_execute w L (JStr tx_b64) seed scheme) =
           [SignInvoked,
            Call ''sui_executeTransactionBlock''
              [JStr tx_b64,
               JArr [JStr (b64encode L ([scheme] @ ed25519_sign L seed (blake2b_256 L ([0, 0, 0] @ tx_bytes)) @
                                         ed25519_public L seed))],
               JObj [(''showEffects'', JBool True), (''showBalanceChanges'', JBool True)],
               JStr ''WaitForLocalExecution'']]"
  using assms sig_bytes_value [OF assms(2), of L tx_bytes scheme]
  by (simp add: lib_sizes_def sign_and_execute_def)

theorem signature_envelope_layout_witness:
  "lib_sizes example_lib \<and> length example_seed = 32 \<and> b64decode example_lib ''AAEC'' = Inr [0, 1, 2] \<and>
   (\<exists>env. sig_bytes example_lib [0, 1, 2] example_seed 0 = Inr env \<and> length env = 97)"
  using signature_envelope_layout [OF example_lib_sizes example_seed_length example_lib_codec(1), of 0 example_world]
    example_lib_sizes
  by simp

subsection \<open>Hexadecimal round trip\<close>

lemma nibbles_hexval: "list_all (\<lambda>n. hexval (hexdigit n) = Some n) [0 ..< 16]"
  by code_simp

lemma nibbles_not_space: "list_all (\<lambda>n. \<not> is_space (hexdigit n)) [0 ..< 16]"
  by code_simp

lemma nibbles_not_x:
  "list_all (\<lambda>n. hexdigit n \<noteq> CHR ''x'' \<and> hexdigit n \<noteq> CHR ''s'') [0 ..< 16]"
  by code_simp

lemma hexval_hexdigit: "n < 16 \<Longrightarrow> hexval (hexdigit n) = Some n"
  using nibbles_hexval by (simp add: list_all_iff)

lemma hexdigit_not_space: "n < 16 \<Longrightarrow> \<not> is_space (hexdigit n)"
  using nibbles_not_space by (simp add: list_all_iff)

lemma hexdigit_not_x: "n < 16 \<Longrightarrow> hexdigit n \<noteq> CHR ''x'' \<and> hexdigit n \<noteq> CHR ''s''"
  using nibbles_not_x by (simp add: list_all_iff)

lemma byte_of_nibbles: "of_nat (16 * (unat b div 16) + unat b mod 16) = (b :: byte)"
  by simp

lemma high_nibble: "unat (b :: byte) div 16 < 16"
proof -
  have "unat b < 2 ^ LENGTH(8)" by (rule unsigned_less)
  then show ?thesis by simp
qed

lemma fromhex_hexdigest: "fromhex (hexdigest bs) = Some bs"
proof (induction bs)
  case Nil
  then show ?case by (simp add: hexdigest_def)
next
  case (Cons b bs)
  have d: "unat b div 16 < 16" by (rule high_nibble)
  have m: "unat b mod 16 < 16" by simp
  have "hexdigest (b # bs) = hexdigit (unat b div 16) # hexdigit (unat b mod 16) # hexdigest bs"
    by (simp add: hexdigest_def hex_byte_def)
  then show ?case
    using Cons hexval_hexdigit [OF d] hexval_hexdigit [OF m] hexdigit_not_space [OF d]
    by (simp add: byte_of_nibbles del: of_nat_add of_nat_mult)
qed

lemma length_hexdigest [simp]: "length (hexdigest bs) = 2 * length bs"
  by (induction bs) (simp_all add: hexdigest_def hex_byte_def)

lemma remove_0x_no_x: "CHR ''x'' \<notin> set s \<Longrightarrow> remove_0x s = s"
  by (induction s rule: remove_0x.induct) auto

lemma hexdigest_no_x: "CHR ''x'' \<notin> set (hexdigest bs)"
proof (induction bs)
  case Nil
  then show ?case by (simp add: hexdigest_def)
next
  case (Cons b bs)
  have d: "unat b div 16 < 16" by (rule high_nibble)
  have m: "unat b mod 16 < 16" by simp
  have "hexdigest (b # bs) = hexdigit (unat b div 16) # hexdigit (unat b mod 16) # hexdigest bs"
    by (simp add: hexdigest_def hex_byte_def)
  then show ?case using Cons hexdigit_not_x [OF d] hexdigit_not_x [OF m] by auto
qed

lemma hexdigest_not_key: "\<not> startswith (hexdigest bs) ''suiprivkey1''"
proof (cases bs)
  case Nil
  then show ?thesis by (simp add: startswith_def hexdigest_def)
next
  case (Cons b bs')
  have d: "unat b div 16 < 16" by (rule high_nibble)
  have "hexdigest (b # bs') = hexdigit (unat b div 16) # hexdigit (unat b mod 16) # hexdigest bs'"
    by (simp add: hexdigest_def hex_byte_def)
  then show ?thesis using Cons hexdigit_not_x [OF d] by (auto simp: startswith_def)
qed








text \<open>
  Claim C6. \<^verbatim>\<open>amount_mist\<close> multiplies the double by 10^9 in double arithmetic and
  truncates. For the double of 0.01 the result is 10,000,000. For the double of 2.01 (the
  53-bit double nearest to 201/100) it is 2,009,999,999, one less than 2.01 * 10^9.
\<close>

theorem amount_mist_examples:
  "amount_mist float_0_01 = Inr 10000000 \<and>
   amount_mist float_2_01 = Inr 2009999999 \<and>
   float_0_01 = Finite 5764607523034235 (- 59) \<and> \<bar>100 * 5764607523034235 - 1 * 2 ^ 59\<bar> \<le> (50 :: int) \<and>
   float_2_01 = Finite 4526117625507348 (- 51) \<and> \<bar>100 * 4526117625507348 - 201 * 2 ^ 51\<bar> \<le> (50 :: int)"
proof -
  have a: "amount_mist float_0_01 = Inr 10000000"
    unfolding amount_mist_def float_0_01_def mul_1e9_def round_double_def Let_def
    by (simp add: rne_shift_def int_of_float_def)
  have b: "amount_mist float_2_01 = Inr 2009999999"
    unfolding amount_mist_def float_2_01_def mul_1e9_def round_double_def Let_def
    by (simp add: rne_shift_def int_of_float_def)
  have c: "\<bar>100 * 5764607523034235 - 1 * 2 ^ 59\<bar> \<le> (50 :: int)" by simp
  have d: "\<bar>100 * 4526117625507348 - 201 * 2 ^ 51\<bar> \<le> (50 :: int)" by simp
  show ?thesis using a b c d float_0_01_def float_2_01_def by blast
qed

lemma with_wallet_frame:
  "snd (transfer_with_wallet w L a al r mist) = \<lparr>v_privkey = Unbound, v_seed = Unbound\<rparr> \<or>
   snd (transfer_with_wallet w L a al r mist) = \<lparr>v_privkey = PyNone, v_seed = Unbound\<rparr> \<or>
   snd (transfer_with_wallet w L a al r mist) = \<lparr>v_privkey = Val [], v_seed = Unbound\<rparr>"
proof (cases "keyring_get_password w al")
  case (Inl e)
  then show ?thesis by (simp add: transfer_with_wallet_def)
next
  case (Inr p)
  show ?thesis
  proof (cases p)
    case None
    then show ?thesis using Inr by (simp add: transfer_with_wallet_def)
  next
    case (Some k)
    obtain r' es sv where t: "transfer_try w L a al r mist k = ((r', es), sv)"
      by (metis surj_pair)
    show ?thesis using Inr Some t
      by (cases "k = []") (simp_all add: transfer_with_wallet_def clear_secrets_def)
  qed
qed

lemma transfer_frame:
  "snd (transfer w L al rcp amt a) = \<lparr>v_privkey = Unbound, v_seed = Unbound\<rparr> \<or>
   snd (transfer w L al rcp amt a) = \<lparr>v_privkey = PyNone, v_seed = Unbound\<rparr> \<or>
   snd (transfer w L al rcp amt a) = \<lparr>v_privkey = Val [], v_seed = Unbound\<rparr>"
proof (cases "amount_mist amt")
  case (Inl e)
  then show ?thesis by (simp add: transfer_def)
next
  case (Inr mist)
  show ?thesis
  proof (cases "endswith rcp ''.sui''")
    case False
    then show ?thesis using Inr with_wallet_frame [of w L a al "JStr rcp" mist] by (simp add: transfer_def)
  next
    case True
    obtain v es where r: "resolve_suins w rcp = (Inr v, es)"
      using resolve_suins_fst [of w rcp] by (metis prod.collapse)
    show ?thesis
    proof (cases "truthy v")
      case False
      then show ?thesis using Inr True r by (simp add: transfer_def)
    next
      case tv: True
      obtain r' es' fr where t: "transfer_with_wallet w L a al v mist = ((r', es'), fr)"
        by (metis surj_pair)
      then show ?thesis using Inr True r tv with_wallet_frame [of w L a al v mist]
        by (simp add: transfer_def)
    qed
  qed
qed

text \<open>
  The \<^verbatim>\<open>finally\<close> block. When \<^verbatim>\<open>transfer\<close> is left, on every path, its variable
  \<^verbatim>\<open>seed\<close> is not bound, and its variable \<^verbatim>\<open>privkey\<close> is not bound either unless the keychain gave no key
  (\<^verbatim>\<open>None\<close> or the empty string): the \<^verbatim>\<open>finally\<close> block has released both on every path
  that held a key.
\<close>

theorem secrets_released:
  "v_seed (final_frame (transfer w L wallet_alias recipient amount_sui auto_confirm)) = Unbound \<and>
   (v_privkey (final_frame (transfer w L wallet_alias recipient amount_sui auto_confirm)) = Unbound \<or>
    v_privkey (final_frame (transfer w L wallet_alias recipient amount_sui auto_confirm)) = PyNone \<or>
    v_privkey (final_frame (transfer w L wallet_alias recipient amount_sui auto_confirm)) = Val [])"
  using transfer_frame [of w L wallet_alias recipient amount_sui auto_confirm]
  by (auto simp: final_frame_def)

subsection \<open>Signing is gated by the dry run\<close>

lemma signing_is_gated:
  assumes "signs (snd (fst (transfer w L al rcp amt a)))"
  shows "\<exists>pre tx rest dry.
           snd (fst (transfer w L al rcp amt a)) = pre @ Call ''sui_dryRunTransactionBlock'' [tx] # rest \<and>
           \<not> signs pre \<and> fst (dry_run w tx) = Inr dry \<and>
           dry_run_status dry = Inr (JStr ''success'') \<and> fst (confirm w a) = Inr True"
proof -
  let ?X = "fst (transfer w L al rcp amt a)"
  have "pipeline_shape w L a ?X" by (rule shape_transfer)
  moreover have "\<not> ends_early ?X" using assms by (simp add: ends_early_def quiet_def)
  ultimately have "reaches_simulation w L a ?X" by (simp add: pipeline_shape_def)
  then obtain pre post sender r tx seed scheme where
    h: "snd ?X = pre @ snd (transfer_simulate w L a sender r tx seed scheme) @ post"
       "quiet pre" "quiet post"
    unfolding reaches_simulation_def by blast
  from assms h have s: "signs (snd (transfer_simulate w L a sender r tx seed scheme))"
    by (simp add: quiet_def)
  then obtain dry where
    d: "fst (dry_run w tx) = Inr dry" "fst (print_dry_run L dry sender r) = Inr True"
       "fst (confirm w a) = Inr True"
    by (auto simp: simulate_signs)
  obtain rest where rest: "snd (transfer_simulate w L a sender r tx seed scheme) =
      Call ''sui_dryRunTransactionBlock'' [tx] # rest"
    using simulate_head by blast
  have "snd ?X = pre @ Call ''sui_dryRunTransactionBlock'' [tx] # (rest @ post)"
    using h(1) rest by simp
  then show ?thesis using h(2) d print_dry_run_True [OF d(2)] by (auto simp: quiet_def)
qed

lemma failed_dry_run_blocks:
  assumes "dry_runs (snd (fst (transfer w L al rcp amt a))) = [[tx]]"
      and "fst (dry_run w tx) = Inr dry"
      and "dry_run_status dry \<noteq> Inr (JStr ''success'')"
  shows "\<not> signs (snd (fst (transfer w L al rcp amt a))) \<and>
         (fst (fst (transfer w L al rcp amt a)) = Inr JNull \<or> isl (fst (fst (transfer w L al rcp amt a))))"
proof -
  let ?X = "fst (transfer w L al rcp amt a)"
  have "pipeline_shape w L a ?X" by (rule shape_transfer)
  moreover have "\<not> ends_early ?X" using assms(1) by (simp add: ends_early_def quiet_def)
  ultimately have "reaches_simulation w L a ?X" by (simp add: pipeline_shape_def)
  then obtain pre post sender r tx' seed scheme where
    h: "snd ?X = pre @ snd (transfer_simulate w L a sender r tx' seed scheme) @ post"
       "fst ?X = fst (transfer_simulate w L a sender r tx' seed scheme)"
       "quiet pre" "quiet post"
    unfolding reaches_simulation_def by blast
  from assms(1) h have "tx' = tx" by (simp add: quiet_def)
  with h have h': "snd ?X = pre @ snd (transfer_simulate w L a sender r tx seed scheme) @ post"
       "fst ?X = fst (transfer_simulate w L a sender r tx seed scheme)" by simp_all
  have "fst (print_dry_run L dry sender r) \<noteq> Inr True"
    using assms(3) by (rule print_dry_run_not_success)
  from simulate_blocked [OF assms(2) this, of a seed scheme] h' h(3,4)
  show ?thesis by (simp add: quiet_def)
qed

lemma None_is_announced:
  assumes "fst (fst (transfer w L al rcp amt a)) = Inr JNull"
  shows "\<not> signs (snd (fst (transfer w L al rcp amt a))) \<and>
         (CannotResolveName \<in> set (said (snd (fst (transfer w L al rcp amt a)))) \<or>
          NoPrivateKey \<in> set (said (snd (fst (transfer w L al rcp amt a)))) \<or>
          NoCoin \<in> set (said (snd (fst (transfer w L al rcp amt a)))) \<or>
          CancelledAfterDryRun \<in> set (said (snd (fst (transfer w L al rcp amt a)))) \<or>
          UserCancelled \<in> set (said (snd (fst (transfer w L al rcp amt a)))))"
proof -
  let ?X = "fst (transfer w L al rcp amt a)"
  have "pipeline_shape w L a ?X" by (rule shape_transfer)
  then show ?thesis unfolding pipeline_shape_def
  proof
    assume "ends_early ?X"
    then show ?thesis using assms by (auto simp: ends_early_def quiet_def)
  next
    assume "reaches_simulation w L a ?X"
    then obtain pre post sender r tx seed scheme where
      h: "snd ?X = pre @ snd (transfer_simulate w L a sender r tx seed scheme) @ post"
         "fst ?X = fst (transfer_simulate w L a sender r tx seed scheme)"
         "quiet pre" "quiet post"
      unfolding reaches_simulation_def by blast
    from assms h(2) have "fst (transfer_simulate w L a sender r tx seed scheme) = Inr JNull" by simp
    from simulate_fst_None [OF this] h show ?thesis by (auto simp: quiet_def)
  qed
qed

lemma result_is_broadcast:
  assumes "fst (fst (transfer w L al rcp amt a)) = Inr v" "v \<noteq> JNull"
  shows "\<exists>ps. Call ''sui_executeTransactionBlock'' ps \<in> set (snd (fst (transfer w L al rcp amt a))) \<and>
           fst (rpc_call w ''sui_executeTransactionBlock'' ps) = Inr v \<and>
           FinalStatus (dry_run_status v = Inr (JStr ''success''))
             \<in> set (said (snd (fst (transfer w L al rcp amt a))))"
proof -
  let ?X = "fst (transfer w L al rcp amt a)"
  have "pipeline_shape w L a ?X" by (rule shape_transfer)
  moreover have "\<not> ends_early ?X" using assms by (auto simp: ends_early_def)
  ultimately have "reaches_simulation w L a ?X" by (simp add: pipeline_shape_def)
  then obtain pre post sender r tx seed scheme where
    h: "snd ?X = pre @ snd (transfer_simulate w L a sender r tx seed scheme) @ post"
       "fst ?X = fst (transfer_simulate w L a sender r tx seed scheme)"
    unfolding reaches_simulation_def by blast
  from assms h(2) have "fst (transfer_simulate w L a sender r tx seed scheme) = Inr v" by simp
  from simulate_fst_result [OF this assms(2)] h(1) show ?thesis by auto
qed

subsection \<open>Automatic confirmation and the answer \<^verbatim>\<open>y\<close>\<close>

lemma without_confirmation_simps [simp]:
  "without_confirmation [] = []"
  "without_confirmation (es @ es') = without_confirmation es @ without_confirmation es'"
  "without_confirmation (Prompt # es) = without_confirmation es"
  "without_confirmation (Say AutoConfirm # es) = without_confirmation es"
  by (simp_all add: without_confirmation_def)

lemma agree_refl [simp]: "agree X X"
  by (simp add: agree_def)

lemma agree_and_then:
  assumes "agree m m'" "\<And>x. fst m = Inr x \<Longrightarrow> agree (f x) (g x)"
  shows "agree (and_then m f) (and_then m' g)"
proof -
  from assms(1) have eq: "fst m' = fst m" "without_confirmation (snd m') = without_confirmation (snd m)"
    by (simp_all add: agree_def)
  show ?thesis
  proof (cases "fst m")
    case (Inl e)
    then show ?thesis using eq by (simp add: agree_def fst_and_then snd_and_then)
  next
    case (Inr x)
    then show ?thesis using eq assms(2) [OF Inr] by (simp add: agree_def fst_and_then snd_and_then)
  qed
qed

lemma agree_if:
  assumes "c \<Longrightarrow> agree A A'" "\<not> c \<Longrightarrow> agree B B'"
  shows "agree (if c then A else B) (if c then A' else B')"
  using assms by simp

lemma agree_lift:
  assumes "\<And>x. r = Inr x \<Longrightarrow> agree (f x) (g x)"
  shows "agree (and_then (lift r) f) (and_then (lift r) g)"
  by (rule agree_and_then) (use assms in \<open>simp_all add: lift_def\<close>)

lemma rpc_call_stdin [simp]: "rpc_call (w\<lparr>stdin_line := x\<rparr>) = rpc_call w"
  by (rule ext)+ (simp add: rpc_call_def)

lemma calls_stdin [simp]:
  "get_coins (w\<lparr>stdin_line := x\<rparr>) = get_coins w"
  "dry_run (w\<lparr>stdin_line := x\<rparr>) = dry_run w"
  "build_transfer_tx (w\<lparr>stdin_line := x\<rparr>) = build_transfer_tx w"
  "sign_and_execute (w\<lparr>stdin_line := x\<rparr>) = sign_and_execute w"
  "resolve_suins (w\<lparr>stdin_line := x\<rparr>) = resolve_suins w"
  by (intro ext, simp add: get_coins_def dry_run_def build_transfer_tx_def sign_and_execute_def
        resolve_suins_def)+

lemma save_wallet_address_stdin [simp]:
  "save_wallet_address (w\<lparr>stdin_line := x\<rparr>) = save_wallet_address w"
  by (intro ext) (simp add: save_wallet_address_def split: sum.splits json.splits file_state.splits)

lemma answer_y: "py_lower (py_strip ''y'') = ''y''"
  by code_simp

lemma confirm_y: "confirm (w\<lparr>stdin_line := Some ''y''\<rparr>) False = (Inr True, [Prompt])"
  by (simp add: confirm_def answer_y)

lemma agree_gate:
  "agree (transfer_gate w L True tx seed scheme ok)
         (transfer_gate (w\<lparr>stdin_line := Some ''y''\<rparr>) L False tx seed scheme ok)"
  by (simp add: transfer_gate_def confirm_y agree_def)

lemma agree_simulate:
  "agree (transfer_simulate w L True sender rcp tx seed scheme)
         (transfer_simulate (w\<lparr>stdin_line := Some ''y''\<rparr>) L False sender rcp tx seed scheme)"
  unfolding transfer_simulate_def calls_stdin
  by (intro agree_and_then agree_refl agree_gate)

lemma agree_build:
  "agree (transfer_build w L True sender rcp mist seed scheme)
         (transfer_build (w\<lparr>stdin_line := Some ''y''\<rparr>) L False sender rcp mist seed scheme)"
  unfolding transfer_build_def calls_stdin
  apply (rule agree_and_then, rule agree_refl)
  apply (rule agree_lift)
  apply (rule agree_if)
   apply (rule agree_refl)
  apply (intro agree_lift)
  apply (rule agree_and_then, rule agree_refl)
  apply (rule agree_lift)
  apply (rule agree_simulate)
  done

lemma agree_try:
  "agree (fst (transfer_try w L True al rcp mist k))
         (fst (transfer_try (w\<lparr>stdin_line := Some ''y''\<rparr>) L False al rcp mist k)) \<and>
   snd (transfer_try w L True al rcp mist k) =
   snd (transfer_try (w\<lparr>stdin_line := Some ''y''\<rparr>) L False al rcp mist k)"
  by (auto simp: transfer_try_def split: sum.splits intro!: agree_and_then agree_build)

lemma agree_with_wallet:
  "agree (fst (transfer_with_wallet w L True al rcp mist))
         (fst (transfer_with_wallet (w\<lparr>stdin_line := Some ''y''\<rparr>) L False al rcp mist)) \<and>
   snd (transfer_with_wallet w L True al rcp mist) =
   snd (transfer_with_wallet (w\<lparr>stdin_line := Some ''y''\<rparr>) L False al rcp mist)"
proof (cases "keyring_get_password w al")
  case (Inl e)
  then show ?thesis by (simp add: transfer_with_wallet_def)
next
  case (Inr p)
  show ?thesis
  proof (cases p)
    case None
    then show ?thesis using Inr by (simp add: transfer_with_wallet_def)
  next
    case (Some k)
    obtain r es sv where t: "transfer_try w L True al rcp mist k = ((r, es), sv)"
      by (metis surj_pair)
    obtain r' es' sv' where t': "transfer_try (w\<lparr>stdin_line := Some ''y''\<rparr>) L False al rcp mist k = ((r', es'), sv')"
      by (metis surj_pair)
    from agree_try [of w L al rcp mist k] t t'
    have "r = r'" "without_confirmation es = without_confirmation es'" "sv = sv'"
      by (simp_all add: agree_def)
    then show ?thesis using Inr Some t t'
      by (cases "k = []") (simp_all add: transfer_with_wallet_def agree_def without_confirmation_def)
  qed
qed

lemma agree_transfer:
  "agree (fst (transfer w L al rcp amt True))
         (fst (transfer (w\<lparr>stdin_line := Some ''y''\<rparr>) L al rcp amt False))"
proof (cases "amount_mist amt")
  case (Inl e)
  then show ?thesis by (simp add: transfer_def)
next
  case (Inr mist)
  show ?thesis
  proof (cases "endswith rcp ''.sui''")
    case False
    then show ?thesis using Inr agree_with_wallet [of w L al "JStr rcp" mist] by (simp add: transfer_def)
  next
    case True
    obtain v es where r: "resolve_suins w rcp = (Inr v, es)"
      using resolve_suins_fst [of w rcp] by (metis prod.collapse)
    show ?thesis
    proof (cases "truthy v")
      case False
      then show ?thesis using Inr True r by (simp add: transfer_def)
    next
      case tv: True
      obtain r1 es1 fr1 where t: "transfer_with_wallet w L True al v mist = ((r1, es1), fr1)"
        by (metis surj_pair)
      obtain r2 es2 fr2 where t': "transfer_with_wallet (w\<lparr>stdin_line := Some ''y''\<rparr>) L False al v mist = ((r2, es2), fr2)"
        by (metis surj_pair)
      from agree_with_wallet [of w L al v mist] t t'
      have "r1 = r2" "without_confirmation es1 = without_confirmation es2" by (simp_all add: agree_def)
      then show ?thesis using Inr True r tv t t' by (simp add: transfer_def agree_def)
    qed
  qed
qed

lemma sign_and_execute_no_prompt: "Prompt \<notin> set (snd (sign_and_execute w L tx seed scheme))"
  by (auto simp: sign_and_execute_def split: sum.splits json.splits)

lemma report_no_prompt: "Prompt \<notin> set (snd (report L r))"
  using report_events [of L r] by auto

lemma gate_no_prompt: "Prompt \<notin> set (snd (transfer_gate w L True tx seed scheme ok))"
  using sign_and_execute_no_prompt [of w L tx seed scheme] report_no_prompt [of L]
  by (auto simp: transfer_gate_def ret_def snd_and_then split: sum.splits)

lemma print_dry_run_no_prompt: "Prompt \<notin> set (snd (print_dry_run L dry sender rcp))"
  using print_dry_run_events [of L dry sender rcp] by auto

lemma simulate_no_prompt: "Prompt \<notin> set (snd (transfer_simulate w L True sender rcp tx seed scheme))"
  using gate_no_prompt [of w L tx seed scheme] print_dry_run_no_prompt [of L _ sender rcp]
  by (auto simp: simulate_snd split: sum.splits)

lemma no_prompt_auto: "Prompt \<notin> set (snd (fst (transfer w L al rcp amt True)))"
proof -
  let ?X = "fst (transfer w L al rcp amt True)"
  have "pipeline_shape w L True ?X" by (rule shape_transfer)
  then show ?thesis unfolding pipeline_shape_def
  proof
    assume "ends_early ?X"
    then show ?thesis by (simp add: ends_early_def quiet_def)
  next
    assume "reaches_simulation w L True ?X"
    then obtain pre post sender r tx seed scheme where
      h: "snd ?X = pre @ snd (transfer_simulate w L True sender r tx seed scheme) @ post"
         "quiet pre" "quiet post"
      unfolding reaches_simulation_def by blast
    then show ?thesis using simulate_no_prompt [of w L sender r tx seed scheme]
      by (simp add: quiet_def)
  qed
qed

subsection \<open>The example runs\<close>

lemma world_of_simps [simp]:
  "keyring_get_password (world_of k c de fe ans) ''sui1'' = Inr k"
  "rpc_post (world_of k c de fe ans) = example_post c de fe"
  "stdin_line (world_of k c de fe ans) = Some ans"
  "addr_file (world_of k c de fe ans) = NoFile"
  "addr_file_writable (world_of k c de fe ans)"
  by (simp_all add: world_of_def)

lemma example_rpc [simp]:
  "rpc_call (world_of k c de fe ans) ''suix_getCoins'' ps =
     (Inr (JObj [(''data'', c)]), [Call ''suix_getCoins'' ps])"
  "rpc_call (world_of k c de fe ans) ''unsafe_paySui'' ps =
     (Inr (JObj [(''txBytes'', JStr ''AAEC'')]), [Call ''unsafe_paySui'' ps])"
  "rpc_call (world_of k c de fe ans) ''sui_dryRunTransactionBlock'' ps =
     (Inr (JObj [(''effects'', de)]), [Call ''sui_dryRunTransactionBlock'' ps])"
  "rpc_call (world_of k c de fe ans) ''sui_executeTransactionBlock'' ps =
     (Inr (broadcast_result fe), [Call ''sui_executeTransactionBlock'' ps])"
  by (simp_all add: rpc_call_def example_post_def py_contains_def py_item_def broadcast_result_def)

lemma example_address [simp]:
  "get_address_from_key example_lib example_key =
     Inr (example_seed, 0, ed25519_public example_lib example_seed, example_sender)"
  by (simp add: get_address_from_key_def decode_bech32_key_def SigningKey_def example_sender_def Let_def)

lemma example_status [simp]:
  "dry_run_status (JObj [(''effects'', ok_effects)]) = Inr (JStr ''success'')"
  "dry_run_status (JObj [(''effects'', failed_effects)]) = Inr (JStr ''failure'')"
  "dry_run_status (broadcast_result ok_effects) = Inr (JStr ''success'')"
  "dry_run_status (broadcast_result failed_effects) = Inr (JStr ''failure'')"
  by (simp_all add: dry_run_status_def effects_of_def status_of_def py_get_def ok_effects_def
        failed_effects_def broadcast_result_def)

lemma big_enough: "(1000000 :: int) < 2 ^ 1024 - 2 ^ 970" "(0 :: int) < 2 ^ 1024 - 2 ^ 970"
     "(1000000000 :: int) < 2 ^ 1024 - 2 ^ 970"
  by simp_all

lemma example_print_dry_run [simp]:
  "print_dry_run example_lib (JObj [(''effects'', ok_effects)]) s r = (Inr True, [Say SimulationOk])"
  "print_dry_run example_lib (JObj [(''effects'', failed_effects)]) s r = (Inr False, [Say SimulationFailed])"
  by (simp_all add: print_dry_run_def effects_of_def status_of_def py_get_def ok_effects_def
        failed_effects_def gas_used_def gas_cost_def py_int_def show_preview_def truthy_def ret_def
        as_float_def big_enough)

lemma example_report [simp]:
  "report example_lib (broadcast_result ok_effects) =
     (Inr (broadcast_result ok_effects), [Say (FinalStatus True)])"
  "report example_lib (broadcast_result failed_effects) =
     (Inr (broadcast_result failed_effects), [Say (FinalStatus False)])"
  by (simp_all add: report_def effects_of_def status_of_def py_get_def ok_effects_def
        failed_effects_def gas_used_def gas_cost_def py_int_def py_iter_def ret_def
        as_float_def big_enough broadcast_result_def)

lemma example_confirm [simp]:
  "confirm (world_of k c de fe ''y'') False = (Inr True, [Prompt])"
  "confirm (world_of k c de fe ''n'') False = (Inr False, [Prompt])"
proof -
  have n: "py_lower (py_strip ''n'') = ''n''" by code_simp
  show "confirm (world_of k c de fe ''y'') False = (Inr True, [Prompt])"
    by (simp add: confirm_def answer_y)
  show "confirm (world_of k c de fe ''n'') False = (Inr False, [Prompt])"
    by (simp add: confirm_def n)
qed

lemma example_sign_and_execute [simp]:
  "sign_and_execute (world_of k c de fe ans) example_lib (JStr ''AAEC'') example_seed 0 =
     (Inr (broadcast_result fe),
      [SignInvoked,
       Call ''sui_executeTransactionBlock''
         [JStr ''AAEC'',
          JArr [JStr (b64encode example_lib
                  ([0] @ ed25519_sign example_lib example_seed (blake2b_256 example_lib ([0, 0, 0] @ [0, 1, 2])) @
                   ed25519_public example_lib example_seed))],
          JObj [(''showEffects'', JBool True), (''showBalanceChanges'', JBool True)],
          JStr ''WaitForLocalExecution'']])"
  by (simp add: sign_and_execute_def sig_bytes_value)

lemma example_simulate_fst:
  "fst (transfer_simulate (world_of k c ok_effects ok_effects ans) example_lib True s r (JStr ''AAEC'') example_seed 0)
     = Inr (broadcast_result ok_effects)"
  "fst (transfer_simulate (world_of k c ok_effects failed_effects ans) example_lib True s r (JStr ''AAEC'') example_seed 0)
     = Inr (broadcast_result failed_effects)"
  "fst (transfer_simulate (world_of k c failed_effects fe ans) example_lib a s r (JStr ''AAEC'') example_seed 0)
     = Inr JNull"
  "fst (transfer_simulate (world_of k c ok_effects fe ''n'') example_lib False s r (JStr ''AAEC'') example_seed 0)
     = Inr JNull"
  "fst (transfer_simulate (world_of k c ok_effects ok_effects ''y'') example_lib False s r (JStr ''AAEC'') example_seed 0)
     = Inr (broadcast_result ok_effects)"
  by (simp_all add: simulate_fst dry_run_def transfer_gate_def ret_def)

lemma example_simulate_signs:
  "signs (snd (transfer_simulate (world_of k c ok_effects fe ans) example_lib True s r (JStr ''AAEC'') example_seed 0))"
  "\<not> signs (snd (transfer_simulate (world_of k c failed_effects fe ans) example_lib a s r (JStr ''AAEC'') example_seed 0))"
  "signs (snd (transfer_simulate (world_of k c ok_effects fe ''y'') example_lib False s r (JStr ''AAEC'') example_seed 0))"
  by (simp_all add: simulate_signs dry_run_def)

lemma example_build:
  "transfer_build (world_of k one_coin de fe ans) example_lib a example_sender r mist example_seed 0 =
     (fst (transfer_simulate (world_of k one_coin de fe ans) example_lib a example_sender r (JStr ''AAEC'') example_seed 0),
      [Call ''suix_getCoins'' [JStr example_sender, JStr ''0x2::sui::SUI'', JNull, JInt 10],
       Call ''unsafe_paySui'' [JStr example_sender, JArr [JStr ''0xc0''], JArr [r], JArr [JStr (py_str mist)],
                               JStr (py_str 5000000)]] @
      snd (transfer_simulate (world_of k one_coin de fe ans) example_lib a example_sender r (JStr ''AAEC'') example_seed 0))"
  by (simp add: transfer_build_def get_coins_def build_transfer_tx_def py_item_def py_index0_def
        py_get_def py_int_def as_float_def big_enough truthy_def one_coin_def)

lemma example_build_no_coin:
  "transfer_build (world_of k (JArr []) de fe ans) example_lib a example_sender r mist example_seed 0 =
     (Inr JNull,
      [Call ''suix_getCoins'' [JStr example_sender, JStr ''0x2::sui::SUI'', JNull, JInt 10], Say NoCoin])"
  by (simp add: transfer_build_def get_coins_def py_item_def truthy_def ret_def)

lemma example_save [simp]:
  "save_wallet_address (world_of k c de fe ans) al ad = (Inr (), [WriteFile [(al, JStr ad)]])"
  by (simp add: save_wallet_address_def)

lemma example_with_wallet:
  "fst (transfer_with_wallet (world_of (Some example_key) c de fe ans) example_lib a ''sui1'' r mist) =
     (fst (transfer_build (world_of (Some example_key) c de fe ans) example_lib a example_sender r mist example_seed 0),
      [Keychain ''sui1'', WriteFile [(''sui1'', JStr example_sender)]] @
      snd (transfer_build (world_of (Some example_key) c de fe ans) example_lib a example_sender r mist example_seed 0) @
      [Say KeyCleared])"
  by (simp add: transfer_with_wallet_def transfer_try_def split: prod.splits)

lemma example_no_key:
  "fst (transfer_with_wallet (world_of None c de fe ans) example_lib a ''sui1'' r mist) =
     (Inr JNull, [Keychain ''sui1'', Say NoPrivateKey])"
  by (simp add: transfer_with_wallet_def)

lemma mist_0_01: "amount_mist float_0_01 = Inr 10000000"
  unfolding amount_mist_def float_0_01_def mul_1e9_def round_double_def Let_def
  by (simp add: rne_shift_def int_of_float_def)

lemma example_transfer:
  "fst (transfer w example_lib ''sui1'' ''0xabc'' float_0_01 a) =
   fst (transfer_with_wallet w example_lib a ''sui1'' (JStr ''0xabc'') 10000000)"
  by (simp add: transfer_def mist_0_01 endswith_def)

lemma example_run_events:
  "snd (fst (transfer (world_of (Some example_key) one_coin de fe ans) example_lib ''sui1'' ''0xabc'' float_0_01 a)) =
     [Keychain ''sui1'', WriteFile [(''sui1'', JStr example_sender)],
      Call ''suix_getCoins'' [JStr example_sender, JStr ''0x2::sui::SUI'', JNull, JInt 10],
      Call ''unsafe_paySui'' [JStr example_sender, JArr [JStr ''0xc0''], JArr [JStr ''0xabc''],
                              JArr [JStr (py_str 10000000)], JStr (py_str 5000000)]] @
     snd (transfer_simulate (world_of (Some example_key) one_coin de fe ans) example_lib a example_sender
            (JStr ''0xabc'') (JStr ''AAEC'') example_seed 0) @
     [Say KeyCleared]"
  "fst (fst (transfer (world_of (Some example_key) one_coin de fe ans) example_lib ''sui1'' ''0xabc'' float_0_01 a)) =
     fst (transfer_simulate (world_of (Some example_key) one_coin de fe ans) example_lib a example_sender
            (JStr ''0xabc'') (JStr ''AAEC'') example_seed 0)"
  by (simp_all add: example_transfer example_with_wallet example_build)

lemma example_run_signs:
  "signs (snd (fst (transfer (world_of (Some example_key) one_coin ok_effects fe ans) example_lib ''sui1'' ''0xabc'' float_0_01 True)))"
  "signs (snd (fst (transfer (world_of (Some example_key) one_coin ok_effects fe ''y'') example_lib ''sui1'' ''0xabc'' float_0_01 False)))"
  "\<not> signs (snd (fst (transfer (world_of (Some example_key) one_coin failed_effects fe ans) example_lib ''sui1'' ''0xabc'' float_0_01 a)))"
  by (simp_all add: example_run_events example_simulate_signs)

lemma example_run_dry_runs:
  "dry_runs (snd (fst (transfer (world_of (Some example_key) one_coin de fe ans) example_lib ''sui1'' ''0xabc'' float_0_01 a)))
     = [[JStr ''AAEC'']]"
  by (simp add: example_run_events)

lemma example_dry_run:
  "fst (dry_run (world_of k c de fe ans) tx) = Inr (JObj [(''effects'', de)])"
  by (simp add: dry_run_def)

text \<open>
  The gate of \<^verbatim>\<open>transfer\<close> of \<^verbatim>\<open>sui_transfer.py\<close>. In every run of it, if
  \<^verbatim>\<open>sign_and_execute\<close> is entered or the broadcast request is sent, then a dry-run request was sent before, nothing was signed
  before it, and its result has the status \<^verbatim>\<open>success\<close>. If the result of the dry run of
  the run has any other status, or none that can be read, nothing is signed or broadcast
  and the run ends with \<^verbatim>\<open>None\<close> or with an exception.
\<close>

theorem signing_only_after_successful_dry_run:
  "(signs (events (transfer w L wallet_alias recipient amount_sui auto_confirm)) \<longrightarrow>
      (\<exists>pre tx rest dry.
         events (transfer w L wallet_alias recipient amount_sui auto_confirm) =
           pre @ Call ''sui_dryRunTransactionBlock'' [tx] # rest \<and>
         \<not> signs pre \<and> fst (dry_run w tx) = Inr dry \<and>
         dry_run_status dry = Inr (JStr ''success''))) \<and>
   (\<forall>tx dry.
      dry_runs (events (transfer w L wallet_alias recipient amount_sui auto_confirm)) = [[tx]] \<and>
      fst (dry_run w tx) = Inr dry \<and> dry_run_status dry \<noteq> Inr (JStr ''success'') \<longrightarrow>
        \<not> signs (events (transfer w L wallet_alias recipient amount_sui auto_confirm)) \<and>
        (outcome (transfer w L wallet_alias recipient amount_sui auto_confirm) = Inr JNull \<or>
         isl (outcome (transfer w L wallet_alias recipient amount_sui auto_confirm))))"
proof (intro conjI impI allI)
  assume "signs (events (transfer w L wallet_alias recipient amount_sui auto_confirm))"
  then have "signs (snd (fst (transfer w L wallet_alias recipient amount_sui auto_confirm)))"
    by (simp add: events_def)
  from signing_is_gated [OF this]
  show "\<exists>pre tx rest dry.
         events (transfer w L wallet_alias recipient amount_sui auto_confirm) =
           pre @ Call ''sui_dryRunTransactionBlock'' [tx] # rest \<and>
         \<not> signs pre \<and> fst (dry_run w tx) = Inr dry \<and>
         dry_run_status dry = Inr (JStr ''success'')"
    unfolding events_def by blast
next
  fix tx dry
  assume h: "dry_runs (events (transfer w L wallet_alias recipient amount_sui auto_confirm)) = [[tx]] \<and>
      fst (dry_run w tx) = Inr dry \<and> dry_run_status dry \<noteq> Inr (JStr ''success'')"
  then have "dry_runs (snd (fst (transfer w L wallet_alias recipient amount_sui auto_confirm))) = [[tx]]"
    "fst (dry_run w tx) = Inr dry" "dry_run_status dry \<noteq> Inr (JStr ''success'')"
    by (simp_all add: events_def)
  from failed_dry_run_blocks [OF this]
  show "\<not> signs (events (transfer w L wallet_alias recipient amount_sui auto_confirm))"
    and "outcome (transfer w L wallet_alias recipient amount_sui auto_confirm) = Inr JNull \<or>
         isl (outcome (transfer w L wallet_alias recipient amount_sui auto_confirm))"
    by (simp_all add: events_def outcome_def)
qed

theorem signing_only_after_successful_dry_run_witness:
  "signs (events (transfer example_world example_lib ''sui1'' ''0xabc'' float_0_01 False)) \<and>
   (\<exists>pre tx rest dry.
      events (transfer example_world example_lib ''sui1'' ''0xabc'' float_0_01 False) =
        pre @ Call ''sui_dryRunTransactionBlock'' [tx] # rest \<and>
      \<not> signs pre \<and> fst (dry_run example_world tx) = Inr dry \<and>
      dry_run_status dry = Inr (JStr ''success'')) \<and>
   dry_runs (events (transfer (world_of (Some example_key) one_coin failed_effects ok_effects ''y'')
                       example_lib ''sui1'' ''0xabc'' float_0_01 False)) = [[JStr ''AAEC'']] \<and>
   fst (dry_run (world_of (Some example_key) one_coin failed_effects ok_effects ''y'') (JStr ''AAEC'')) =
     Inr (JObj [(''effects'', failed_effects)]) \<and>
   dry_run_status (JObj [(''effects'', failed_effects)]) \<noteq> Inr (JStr ''success'') \<and>
   \<not> signs (events (transfer (world_of (Some example_key) one_coin failed_effects ok_effects ''y'')
                       example_lib ''sui1'' ''0xabc'' float_0_01 False)) \<and>
   (outcome (transfer (world_of (Some example_key) one_coin failed_effects ok_effects ''y'')
                       example_lib ''sui1'' ''0xabc'' float_0_01 False) = Inr JNull \<or>
    isl (outcome (transfer (world_of (Some example_key) one_coin failed_effects ok_effects ''y'')
                       example_lib ''sui1'' ''0xabc'' float_0_01 False)))"
proof -
  let ?W = "world_of (Some example_key) one_coin failed_effects ok_effects ''y''"
  have s: "signs (events (transfer example_world example_lib ''sui1'' ''0xabc'' float_0_01 False))"
    by (simp add: events_def example_world_def example_run_signs)
  have d: "dry_runs (events (transfer ?W example_lib ''sui1'' ''0xabc'' float_0_01 False)) = [[JStr ''AAEC'']]"
    by (simp add: events_def example_run_dry_runs)
  have r: "fst (dry_run ?W (JStr ''AAEC'')) = Inr (JObj [(''effects'', failed_effects)])"
    by (rule example_dry_run)
  have n: "dry_run_status (JObj [(''effects'', failed_effects)]) \<noteq> Inr (JStr ''success'')"
    by simp
  from signing_only_after_successful_dry_run [of example_world example_lib "''sui1''" "''0xabc''" float_0_01 False] s
  have a: "\<exists>pre tx rest dry.
      events (transfer example_world example_lib ''sui1'' ''0xabc'' float_0_01 False) =
        pre @ Call ''sui_dryRunTransactionBlock'' [tx] # rest \<and>
      \<not> signs pre \<and> fst (dry_run example_world tx) = Inr dry \<and>
      dry_run_status dry = Inr (JStr ''success'')" by blast
  from signing_only_after_successful_dry_run [of ?W example_lib "''sui1''" "''0xabc''" float_0_01 False] d r n
  have b: "\<not> signs (events (transfer ?W example_lib ''sui1'' ''0xabc'' float_0_01 False)) \<and>
     (outcome (transfer ?W example_lib ''sui1'' ''0xabc'' float_0_01 False) = Inr JNull \<or>
      isl (outcome (transfer ?W example_lib ''sui1'' ''0xabc'' float_0_01 False)))" by blast
  show ?thesis using s a d r n b by blast
qed

text \<open>
  Claim C2. With \<^verbatim>\<open>auto_confirm\<close> set the dry run gates the signature as without it: if
  anything is signed, a dry-run request was sent before and its result has the status
  \<^verbatim>\<open>success\<close>, and after a dry run with any other status nothing is signed. The run never
  prompts, and it ends with the same value or exception and causes the same events,
  prompt and automatic-mode line apart, as the interactive run in which the operator
  answers \<^verbatim>\<open>y\<close>.
\<close>

theorem auto_confirm_skips_only_the_prompt:
  "(signs (events (transfer w L wallet_alias recipient amount_sui True)) \<longrightarrow>
      (\<exists>pre tx rest dry.
         events (transfer w L wallet_alias recipient amount_sui True) =
           pre @ Call ''sui_dryRunTransactionBlock'' [tx] # rest \<and>
         \<not> signs pre \<and> fst (dry_run w tx) = Inr dry \<and>
         dry_run_status dry = Inr (JStr ''success''))) \<and>
   (\<forall>tx dry.
      dry_runs (events (transfer w L wallet_alias recipient amount_sui True)) = [[tx]] \<and>
      fst (dry_run w tx) = Inr dry \<and> dry_run_status dry \<noteq> Inr (JStr ''success'') \<longrightarrow>
        \<not> signs (events (transfer w L wallet_alias recipient amount_sui True))) \<and>
   Prompt \<notin> set (events (transfer w L wallet_alias recipient amount_sui True)) \<and>
   outcome (transfer w L wallet_alias recipient amount_sui True) =
     outcome (transfer (w\<lparr>stdin_line := Some ''y''\<rparr>) L wallet_alias recipient amount_sui False) \<and>
   without_confirmation (events (transfer w L wallet_alias recipient amount_sui True)) =
     without_confirmation
       (events (transfer (w\<lparr>stdin_line := Some ''y''\<rparr>) L wallet_alias recipient amount_sui False))"
proof (intro conjI impI allI)
  assume "signs (events (transfer w L wallet_alias recipient amount_sui True))"
  then have "signs (snd (fst (transfer w L wallet_alias recipient amount_sui True)))"
    by (simp add: events_def)
  from signing_is_gated [OF this]
  show "\<exists>pre tx rest dry.
         events (transfer w L wallet_alias recipient amount_sui True) =
           pre @ Call ''sui_dryRunTransactionBlock'' [tx] # rest \<and>
         \<not> signs pre \<and> fst (dry_run w tx) = Inr dry \<and>
         dry_run_status dry = Inr (JStr ''success'')"
    unfolding events_def by blast
next
  fix tx dry
  assume "dry_runs (events (transfer w L wallet_alias recipient amount_sui True)) = [[tx]] \<and>
      fst (dry_run w tx) = Inr dry \<and> dry_run_status dry \<noteq> Inr (JStr ''success'')"
  then have "dry_runs (snd (fst (transfer w L wallet_alias recipient amount_sui True))) = [[tx]]"
    "fst (dry_run w tx) = Inr dry" "dry_run_status dry \<noteq> Inr (JStr ''success'')"
    by (simp_all add: events_def)
  from failed_dry_run_blocks [OF this]
  show "\<not> signs (events (transfer w L wallet_alias recipient amount_sui True))"
    by (simp add: events_def)
next
  show "Prompt \<notin> set (events (transfer w L wallet_alias recipient amount_sui True))"
    using no_prompt_auto [of w L wallet_alias recipient amount_sui] by (simp add: events_def)
next
  show "outcome (transfer w L wallet_alias recipient amount_sui True) =
     outcome (transfer (w\<lparr>stdin_line := Some ''y''\<rparr>) L wallet_alias recipient amount_sui False)"
    using agree_transfer [of w L wallet_alias recipient amount_sui] by (simp add: agree_def outcome_def)
next
  show "without_confirmation (events (transfer w L wallet_alias recipient amount_sui True)) =
     without_confirmation
       (events (transfer (w\<lparr>stdin_line := Some ''y''\<rparr>) L wallet_alias recipient amount_sui False))"
    using agree_transfer [of w L wallet_alias recipient amount_sui] by (simp add: agree_def events_def)
qed

theorem auto_confirm_skips_only_the_prompt_witness:
  "signs (events (transfer example_world example_lib ''sui1'' ''0xabc'' float_0_01 True)) \<and>
   (\<exists>pre tx rest dry.
      events (transfer example_world example_lib ''sui1'' ''0xabc'' float_0_01 True) =
        pre @ Call ''sui_dryRunTransactionBlock'' [tx] # rest \<and>
      \<not> signs pre \<and> fst (dry_run example_world tx) = Inr dry \<and>
      dry_run_status dry = Inr (JStr ''success'')) \<and>
   dry_runs (events (transfer (world_of (Some example_key) one_coin failed_effects ok_effects ''y'')
                       example_lib ''sui1'' ''0xabc'' float_0_01 True)) = [[JStr ''AAEC'']] \<and>
   fst (dry_run (world_of (Some example_key) one_coin failed_effects ok_effects ''y'') (JStr ''AAEC'')) =
     Inr (JObj [(''effects'', failed_effects)]) \<and>
   dry_run_status (JObj [(''effects'', failed_effects)]) \<noteq> Inr (JStr ''success'') \<and>
   \<not> signs (events (transfer (world_of (Some example_key) one_coin failed_effects ok_effects ''y'')
                       example_lib ''sui1'' ''0xabc'' float_0_01 True))"
proof -
  let ?W = "world_of (Some example_key) one_coin failed_effects ok_effects ''y''"
  have s: "signs (events (transfer example_world example_lib ''sui1'' ''0xabc'' float_0_01 True))"
    by (simp add: events_def example_world_def example_run_signs)
  have d: "dry_runs (events (transfer ?W example_lib ''sui1'' ''0xabc'' float_0_01 True)) = [[JStr ''AAEC'']]"
    by (simp add: events_def example_run_dry_runs)
  have r: "fst (dry_run ?W (JStr ''AAEC'')) = Inr (JObj [(''effects'', failed_effects)])"
    by (rule example_dry_run)
  have n: "dry_run_status (JObj [(''effects'', failed_effects)]) \<noteq> Inr (JStr ''success'')"
    by simp
  from auto_confirm_skips_only_the_prompt [of example_world example_lib "''sui1''" "''0xabc''" float_0_01] s
  have a: "\<exists>pre tx rest dry.
      events (transfer example_world example_lib ''sui1'' ''0xabc'' float_0_01 True) =
        pre @ Call ''sui_dryRunTransactionBlock'' [tx] # rest \<and>
      \<not> signs pre \<and> fst (dry_run example_world tx) = Inr dry \<and>
      dry_run_status dry = Inr (JStr ''success'')" by blast
  from auto_confirm_skips_only_the_prompt [of ?W example_lib "''sui1''" "''0xabc''" float_0_01] d r n
  have b: "\<not> signs (events (transfer ?W example_lib ''sui1'' ''0xabc'' float_0_01 True))" by blast
  show ?thesis using s a d r n b by blast
qed

text \<open>
  Claim C7, as the code has it. \<^verbatim>\<open>transfer\<close> has no error kinds of its own. A run that
  returns \<^verbatim>\<open>None\<close> has signed nothing and has printed one of five lines that tell why: the
  name was not resolved, the keychain gave no key, there is no coin, the dry run failed,
  or the operator did not confirm. A run that returns anything else returns the node's
  response to the broadcast request as it is, whatever its status, after printing the
  final status, which is positive exactly when the status of the response is
  \<^verbatim>\<open>success\<close>. Every other failure leaves \<^verbatim>\<open>transfer\<close> as the Python exception raised.
\<close>

theorem outcomes_are_announced:
  "(outcome (transfer w L wallet_alias recipient amount_sui auto_confirm) = Inr JNull \<longrightarrow>
      \<not> signs (events (transfer w L wallet_alias recipient amount_sui auto_confirm)) \<and>
      (CannotResolveName \<in> set (said (events (transfer w L wallet_alias recipient amount_sui auto_confirm))) \<or>
       NoPrivateKey \<in> set (said (events (transfer w L wallet_alias recipient amount_sui auto_confirm))) \<or>
       NoCoin \<in> set (said (events (transfer w L wallet_alias recipient amount_sui auto_confirm))) \<or>
       CancelledAfterDryRun \<in> set (said (events (transfer w L wallet_alias recipient amount_sui auto_confirm))) \<or>
       UserCancelled \<in> set (said (events (transfer w L wallet_alias recipient amount_sui auto_confirm))))) \<and>
   (\<forall>v. outcome (transfer w L wallet_alias recipient amount_sui auto_confirm) = Inr v \<and> v \<noteq> JNull \<longrightarrow>
      (\<exists>params.
         Call ''sui_executeTransactionBlock'' params
           \<in> set (events (transfer w L wallet_alias recipient amount_sui auto_confirm)) \<and>
         fst (rpc_call w ''sui_executeTransactionBlock'' params) = Inr v \<and>
         FinalStatus (dry_run_status v = Inr (JStr ''success''))
           \<in> set (said (events (transfer w L wallet_alias recipient amount_sui auto_confirm)))))"
proof (intro conjI impI allI)
  assume "outcome (transfer w L wallet_alias recipient amount_sui auto_confirm) = Inr JNull"
  then have "fst (fst (transfer w L wallet_alias recipient amount_sui auto_confirm)) = Inr JNull"
    by (simp add: outcome_def)
  from None_is_announced [OF this]
  show "\<not> signs (events (transfer w L wallet_alias recipient amount_sui auto_confirm))"
    and "CannotResolveName \<in> set (said (events (transfer w L wallet_alias recipient amount_sui auto_confirm))) \<or>
       NoPrivateKey \<in> set (said (events (transfer w L wallet_alias recipient amount_sui auto_confirm))) \<or>
       NoCoin \<in> set (said (events (transfer w L wallet_alias recipient amount_sui auto_confirm))) \<or>
       CancelledAfterDryRun \<in> set (said (events (transfer w L wallet_alias recipient amount_sui auto_confirm))) \<or>
       UserCancelled \<in> set (said (events (transfer w L wallet_alias recipient amount_sui auto_confirm)))"
    by (simp_all add: events_def)
next
  fix v
  assume "outcome (transfer w L wallet_alias recipient amount_sui auto_confirm) = Inr v \<and> v \<noteq> JNull"
  then have "fst (fst (transfer w L wallet_alias recipient amount_sui auto_confirm)) = Inr v" "v \<noteq> JNull"
    by (simp_all add: outcome_def)
  from result_is_broadcast [OF this]
  show "\<exists>params.
         Call ''sui_executeTransactionBlock'' params
           \<in> set (events (transfer w L wallet_alias recipient amount_sui auto_confirm)) \<and>
         fst (rpc_call w ''sui_executeTransactionBlock'' params) = Inr v \<and>
         FinalStatus (dry_run_status v = Inr (JStr ''success''))
           \<in> set (said (events (transfer w L wallet_alias recipient amount_sui auto_confirm)))"
    by (simp add: events_def)
qed

lemma example_outcomes:
  "outcome (transfer (world_of None one_coin ok_effects ok_effects ''y'') example_lib ''sui1'' ''0xabc'' float_0_01 False) = Inr JNull"
  "outcome (transfer (world_of (Some example_key) (JArr []) ok_effects ok_effects ''y'') example_lib ''sui1'' ''0xabc'' float_0_01 False) = Inr JNull"
  "outcome (transfer (world_of (Some example_key) one_coin failed_effects ok_effects ''y'') example_lib ''sui1'' ''0xabc'' float_0_01 False) = Inr JNull"
  "outcome (transfer (world_of (Some example_key) one_coin ok_effects ok_effects ''n'') example_lib ''sui1'' ''0xabc'' float_0_01 False) = Inr JNull"
  "outcome (transfer (world_of (Some example_key) one_coin ok_effects failed_effects ''y'') example_lib ''sui1'' ''0xabc'' float_0_01 True) = Inr (broadcast_result failed_effects)"
  "outcome (transfer (world_of (Some example_key) one_coin ok_effects ok_effects ''y'') example_lib ''sui1'' ''0xabc'' float_0_01 True) = Inr (broadcast_result ok_effects)"
  by (simp_all add: outcome_def example_transfer example_no_key example_with_wallet example_build
        example_build_no_coin example_simulate_fst)

theorem outcomes_are_announced_witness:
  "outcome (transfer (world_of None one_coin ok_effects ok_effects ''y'') example_lib ''sui1'' ''0xabc'' float_0_01 False) = Inr JNull \<and>
   \<not> signs (events (transfer (world_of None one_coin ok_effects ok_effects ''y'') example_lib ''sui1'' ''0xabc'' float_0_01 False)) \<and>
   outcome (transfer (world_of (Some example_key) one_coin ok_effects failed_effects ''y'') example_lib ''sui1'' ''0xabc'' float_0_01 True) =
     Inr (broadcast_result failed_effects) \<and>
   broadcast_result failed_effects \<noteq> JNull \<and>
   (\<exists>params.
      Call ''sui_executeTransactionBlock'' params
        \<in> set (events (transfer (world_of (Some example_key) one_coin ok_effects failed_effects ''y'')
                           example_lib ''sui1'' ''0xabc'' float_0_01 True)) \<and>
      FinalStatus False
        \<in> set (said (events (transfer (world_of (Some example_key) one_coin ok_effects failed_effects ''y'')
                                 example_lib ''sui1'' ''0xabc'' float_0_01 True))))"
proof -
  let ?A = "transfer (world_of None one_coin ok_effects ok_effects ''y'') example_lib ''sui1'' ''0xabc'' float_0_01 False"
  let ?W = "world_of (Some example_key) one_coin ok_effects failed_effects ''y''"
  let ?B = "transfer ?W example_lib ''sui1'' ''0xabc'' float_0_01 True"
  have a: "outcome ?A = Inr JNull" by (rule example_outcomes(1))
  have b: "outcome ?B = Inr (broadcast_result failed_effects)" by (rule example_outcomes(5))
  have n: "broadcast_result failed_effects \<noteq> JNull" by (simp add: broadcast_result_def)
  have f: "(dry_run_status (broadcast_result failed_effects) = Inr (JStr ''success'')) = False" by simp
  from outcomes_are_announced [of "world_of None one_coin ok_effects ok_effects ''y''" example_lib "''sui1''" "''0xabc''" float_0_01 False] a
  have 1: "\<not> signs (events ?A)" by blast
  from outcomes_are_announced [of ?W example_lib "''sui1''" "''0xabc''" float_0_01 True] b n
  have "\<exists>params. Call ''sui_executeTransactionBlock'' params \<in> set (events ?B) \<and>
      fst (rpc_call ?W ''sui_executeTransactionBlock'' params) = Inr (broadcast_result failed_effects) \<and>
      FinalStatus (dry_run_status (broadcast_result failed_effects) = Inr (JStr ''success'')) \<in> set (said (events ?B))"
    by blast
  then have 2: "\<exists>params. Call ''sui_executeTransactionBlock'' params \<in> set (events ?B) \<and>
      FinalStatus False \<in> set (said (events ?B))"
    unfolding f by blast
  show ?thesis using a 1 b n 2 by blast
qed

text \<open>
  The error kinds are not told apart by what \<^verbatim>\<open>transfer\<close> returns: with no key in the
  keychain, with no coin, after a failed dry run and after the answer \<^verbatim>\<open>n\<close> the caller
  gets the same \<^verbatim>\<open>None\<close>, and after a broadcast that the chain reports as failed the
  caller gets the node's response as a normal result, as after a successful one.
\<close>

theorem error_kinds_counterexample:
  "outcome (transfer (world_of None one_coin ok_effects ok_effects ''y'') example_lib ''sui1'' ''0xabc'' float_0_01 False) = Inr JNull \<and>
   outcome (transfer (world_of (Some example_key) (JArr []) ok_effects ok_effects ''y'') example_lib ''sui1'' ''0xabc'' float_0_01 False) = Inr JNull \<and>
   outcome (transfer (world_of (Some example_key) one_coin failed_effects ok_effects ''y'') example_lib ''sui1'' ''0xabc'' float_0_01 False) = Inr JNull \<and>
   outcome (transfer (world_of (Some example_key) one_coin ok_effects ok_effects ''n'') example_lib ''sui1'' ''0xabc'' float_0_01 False) = Inr JNull \<and>
   outcome (transfer (world_of (Some example_key) one_coin ok_effects failed_effects ''y'') example_lib ''sui1'' ''0xabc'' float_0_01 True) =
     Inr (broadcast_result failed_effects) \<and>
   dry_run_status (broadcast_result failed_effects) = Inr (JStr ''failure'') \<and>
   outcome (transfer (world_of (Some example_key) one_coin ok_effects ok_effects ''y'') example_lib ''sui1'' ''0xabc'' float_0_01 True) =
     Inr (broadcast_result ok_effects)"
  using example_outcomes by simp

text \<open>
  Claim C10, as the code has it. For a dry-run result whose status does not read as the
  string \<^verbatim>\<open>success\<close>, \<^verbatim>\<open>print_dry_run\<close> never returns \<^verbatim>\<open>True\<close>; it returns \<^verbatim>\<open>False\<close>
  when the status and the gas costs can be read, as for the empty result; and a run of
  \<^verbatim>\<open>transfer\<close> whose dry run gave that result signs nothing and ends with \<^verbatim>\<open>None\<close> or an
  exception.
\<close>

theorem unknown_status_blocks_signing:
  assumes "dry_run_status dry \<noteq> Inr (JStr ''success'')"
  shows "fst (print_dry_run L dry sender rcp) \<noteq> Inr True \<and>
         ((\<exists>effects status g. effects_of dry = Inr effects \<and> status_of effects = Inr status \<and>
                              gas_used L effects = Inr g) \<longrightarrow>
            print_dry_run L dry sender rcp = (Inr False, [Say SimulationFailed])) \<and>
         print_dry_run L (JObj []) sender rcp = (Inr False, [Say SimulationFailed]) \<and>
         (\<forall>w wallet_alias recipient amount_sui auto_confirm tx.
            dry_runs (events (transfer w L wallet_alias recipient amount_sui auto_confirm)) = [[tx]] \<and>
            fst (dry_run w tx) = Inr dry \<longrightarrow>
              \<not> signs (events (transfer w L wallet_alias recipient amount_sui auto_confirm)) \<and>
              (outcome (transfer w L wallet_alias recipient amount_sui auto_confirm) = Inr JNull \<or>
               isl (outcome (transfer w L wallet_alias recipient amount_sui auto_confirm))))"
proof (intro conjI impI allI)
  show "fst (print_dry_run L dry sender rcp) \<noteq> Inr True"
    using assms by (rule print_dry_run_not_success)
next
  assume "\<exists>effects status g. effects_of dry = Inr effects \<and> status_of effects = Inr status \<and>
                              gas_used L effects = Inr g"
  then obtain effects status g where
    h: "effects_of dry = Inr effects" "status_of effects = Inr status" "gas_used L effects = Inr g"
    by blast
  with assms have "status \<noteq> JStr ''success''" by (simp add: dry_run_status_def)
  then show "print_dry_run L dry sender rcp = (Inr False, [Say SimulationFailed])"
    using h by (simp add: print_dry_run_def ret_def)
next
  show "print_dry_run L (JObj []) sender rcp = (Inr False, [Say SimulationFailed])"
    by (simp add: print_dry_run_def ret_def effects_of_def status_of_def gas_used_def gas_cost_def
          py_get_def py_int_def)
next
  fix w wallet_alias recipient amount_sui auto_confirm tx
  assume "dry_runs (events (transfer w L wallet_alias recipient amount_sui auto_confirm)) = [[tx]] \<and>
            fst (dry_run w tx) = Inr dry"
  then have "dry_runs (snd (fst (transfer w L wallet_alias recipient amount_sui auto_confirm))) = [[tx]]"
    "fst (dry_run w tx) = Inr dry"
    by (simp_all add: events_def)
  from failed_dry_run_blocks [OF this assms]
  show "\<not> signs (events (transfer w L wallet_alias recipient amount_sui auto_confirm))"
    and "outcome (transfer w L wallet_alias recipient amount_sui auto_confirm) = Inr JNull \<or>
         isl (outcome (transfer w L wallet_alias recipient amount_sui auto_confirm))"
    by (simp_all add: events_def outcome_def)
qed

theorem unknown_status_blocks_signing_witness:
  "dry_run_status (JObj [(''effects'', failed_effects)]) \<noteq> Inr (JStr ''success'') \<and>
   (\<exists>effects status g.
      effects_of (JObj [(''effects'', failed_effects)]) = Inr effects \<and> status_of effects = Inr status \<and>
      gas_used example_lib effects = Inr g) \<and>
   print_dry_run example_lib (JObj [(''effects'', failed_effects)]) example_sender (JStr ''0xabc'') =
     (Inr False, [Say SimulationFailed]) \<and>
   dry_runs (events (transfer (world_of (Some example_key) one_coin failed_effects ok_effects ''y'')
                       example_lib ''sui1'' ''0xabc'' float_0_01 True)) = [[JStr ''AAEC'']] \<and>
   fst (dry_run (world_of (Some example_key) one_coin failed_effects ok_effects ''y'') (JStr ''AAEC'')) =
     Inr (JObj [(''effects'', failed_effects)]) \<and>
   \<not> signs (events (transfer (world_of (Some example_key) one_coin failed_effects ok_effects ''y'')
                       example_lib ''sui1'' ''0xabc'' float_0_01 True))"
proof -
  let ?W = "world_of (Some example_key) one_coin failed_effects ok_effects ''y''"
  let ?dry = "JObj [(''effects'', failed_effects)]"
  have n: "dry_run_status ?dry \<noteq> Inr (JStr ''success'')" by simp
  have e: "\<exists>effects status g.
      effects_of ?dry = Inr effects \<and> status_of effects = Inr status \<and> gas_used example_lib effects = Inr g"
    by (simp add: effects_of_def status_of_def gas_used_def gas_cost_def py_get_def py_int_def
          failed_effects_def)
  have d: "dry_runs (events (transfer ?W example_lib ''sui1'' ''0xabc'' float_0_01 True)) = [[JStr ''AAEC'']]"
    by (simp add: events_def example_run_dry_runs)
  have r: "fst (dry_run ?W (JStr ''AAEC'')) = Inr ?dry"
    by (rule example_dry_run)
  note t = unknown_status_blocks_signing [OF n, of example_lib example_sender "JStr ''0xabc''"]
  from t e have p: "print_dry_run example_lib ?dry example_sender (JStr ''0xabc'') = (Inr False, [Say SimulationFailed])"
    by blast
  from t d r have s: "\<not> signs (events (transfer ?W example_lib ''sui1'' ''0xabc'' float_0_01 True))"
    by blast
  show ?thesis using n e p d r s by blast
qed

text \<open>
  The preview does not return \<^verbatim>\<open>False\<close> for every result without the status
  \<^verbatim>\<open>success\<close>: when \<^verbatim>\<open>effects.status\<close> is a string, or a gas cost is \<^verbatim>\<open>null\<close>, the
  reading of the result raises before the status is compared.
\<close>

theorem unknown_status_counterexample:
  "dry_run_status (JObj [(''effects'', JObj [(''status'', JStr ''failure'')])]) \<noteq> Inr (JStr ''success'') \<and>
   print_dry_run example_lib (JObj [(''effects'', JObj [(''status'', JStr ''failure'')])])
       example_sender (JStr ''0xabc'') = (Inl AttributeError, []) \<and>
   dry_run_status (JObj [(''effects'', JObj [(''status'', JObj [(''status'', JStr ''failure'')]),
                                            (''gasUsed'', JObj [(''computationCost'', JNull)])])])
     = Inr (JStr ''failure'') \<and>
   print_dry_run example_lib
       (JObj [(''effects'', JObj [(''status'', JObj [(''status'', JStr ''failure'')]),
                                  (''gasUsed'', JObj [(''computationCost'', JNull)])])])
       example_sender (JStr ''0xabc'') = (Inl TypeError, [])"
  by (simp add: dry_run_status_def print_dry_run_def effects_of_def status_of_def gas_used_def
        gas_cost_def py_get_def py_int_def)

section \<open>The transfer without a dry run\<close>

lemma sign_and_execute_snd:
  "snd (sign_and_execute w L tx seed scheme) = [SignInvoked] \<or>
   (\<exists>ps. snd (sign_and_execute w L tx seed scheme) = [SignInvoked, Call ''sui_executeTransactionBlock'' ps])"
  by (auto simp: sign_and_execute_def split: sum.splits json.splits)

lemma sign_report_no_dry_run:
  "dry_runs (snd (and_then (sign_and_execute w L tx seed scheme) (report L))) = [] \<and>
   Prompt \<notin> set (snd (and_then (sign_and_execute w L tx seed scheme) (report L)))"
proof -
  have r: "\<And>v. dry_runs (snd (report L v)) = [] \<and> Prompt \<notin> set (snd (report L v))"
  proof -
    fix v
    from report_events [of L v] show "dry_runs (snd (report L v)) = [] \<and> Prompt \<notin> set (snd (report L v))"
      by auto
  qed
  from sign_and_execute_snd [of w L tx seed scheme] show ?thesis
    by (auto simp: snd_and_then r split: sum.splits)
qed

lemma body_MiaoWallet_no_dry_run:
  "dry_runs (snd (transfer_body_MiaoWallet w L sender rcp mist seed scheme)) = [] \<and>
   Prompt \<notin> set (snd (transfer_body_MiaoWallet w L sender rcp mist seed scheme))"
  using sign_report_no_dry_run [of w L _ seed scheme]
  by (simp add: transfer_body_MiaoWallet_def snd_and_then get_coins_def build_transfer_tx_def
        lift_def say_def ret_def split: sum.splits)

lemma MiaoWallet_no_dry_run:
  "dry_runs (snd (transfer_MiaoWallet w L al rcp amt)) = [] \<and>
   Prompt \<notin> set (snd (transfer_MiaoWallet w L al rcp amt))"
  using body_MiaoWallet_no_dry_run [of w L _ rcp _ _ _]
  by (auto simp: transfer_MiaoWallet_def case_prod_beta split: sum.splits option.splits)

lemma example_body_MiaoWallet:
  "transfer_body_MiaoWallet (world_of k one_coin de fe ans) example_lib example_sender ''0xabc'' mist example_seed 0 =
     (fst (report example_lib (broadcast_result fe)),
      [Call ''suix_getCoins'' [JStr example_sender, JStr ''0x2::sui::SUI'', JNull, JInt 10],
       Call ''unsafe_paySui'' [JStr example_sender, JArr [JStr ''0xc0''], JArr [JStr ''0xabc''],
                               JArr [JStr (py_str mist)], JStr (py_str 5000000)]] @
      snd (sign_and_execute (world_of k one_coin de fe ans) example_lib (JStr ''AAEC'') example_seed 0) @
      snd (report example_lib (broadcast_result fe)))"
  by (simp add: transfer_body_MiaoWallet_def get_coins_def build_transfer_tx_def py_item_def
        py_index0_def truthy_def one_coin_def)

lemma example_MiaoWallet:
  "transfer_MiaoWallet (world_of (Some example_key) one_coin de ok_effects ans) example_lib ''sui1'' ''0xabc'' float_0_01 =
     (Inr (broadcast_result ok_effects),
      [Keychain ''sui1'',
       Call ''suix_getCoins'' [JStr example_sender, JStr ''0x2::sui::SUI'', JNull, JInt 10],
       Call ''unsafe_paySui'' [JStr example_sender, JArr [JStr ''0xc0''], JArr [JStr ''0xabc''],
                               JArr [JStr (py_str 10000000)], JStr (py_str 5000000)]] @
      snd (sign_and_execute (world_of (Some example_key) one_coin de ok_effects ans) example_lib (JStr ''AAEC'') example_seed 0) @
      [Say (FinalStatus True), Say KeyCleared])"
proof -
  have "example_key \<noteq> []"
    by (simp add: example_key_def)
  then show ?thesis
    by (simp add: transfer_MiaoWallet_def mist_0_01 example_body_MiaoWallet)
qed

text \<open>
  Claim C1 holds for \<^verbatim>\<open>transfer\<close> of \<^verbatim>\<open>sui_transfer.py\<close> and fails for \<^verbatim>\<open>transfer\<close> of
  \<^verbatim>\<open>MiaoWallet/sui_transfer.py\<close>. No run of the latter sends a dry-run request. With the
  example key and one coin it signs and broadcasts 0.01 SUI and returns the response of
  the node, on a node whose dry run of the same transaction reports a failure and with an
  operator who would type \<^verbatim>\<open>n\<close>; \<^verbatim>\<open>transfer\<close> of \<^verbatim>\<open>sui_transfer.py\<close> signs nothing on
  the same input.
\<close>

theorem MiaoWallet_transfer_signs_without_dry_run:
  "dry_runs (snd (transfer_MiaoWallet w L wallet_alias recipient amount_sui)) = [] \<and>
   signs (snd (transfer_MiaoWallet refusing_world example_lib ''sui1'' ''0xabc'' float_0_01)) \<and>
   fst (transfer_MiaoWallet refusing_world example_lib ''sui1'' ''0xabc'' float_0_01) =
     Inr (broadcast_result ok_effects) \<and>
   fst (dry_run refusing_world (JStr ''AAEC'')) = Inr (JObj [(''effects'', failed_effects)]) \<and>
   dry_run_status (JObj [(''effects'', failed_effects)]) = Inr (JStr ''failure'') \<and>
   \<not> signs (events (transfer refusing_world example_lib ''sui1'' ''0xabc'' float_0_01 auto_confirm))"
proof (intro conjI)
  show "dry_runs (snd (transfer_MiaoWallet w L wallet_alias recipient amount_sui)) = []"
    using MiaoWallet_no_dry_run by simp
  show "signs (snd (transfer_MiaoWallet refusing_world example_lib ''sui1'' ''0xabc'' float_0_01))"
    by (simp add: refusing_world_def example_MiaoWallet)
  show "fst (transfer_MiaoWallet refusing_world example_lib ''sui1'' ''0xabc'' float_0_01) =
          Inr (broadcast_result ok_effects)"
    by (simp add: refusing_world_def example_MiaoWallet)
  show "fst (dry_run refusing_world (JStr ''AAEC'')) = Inr (JObj [(''effects'', failed_effects)])"
    by (simp add: refusing_world_def example_dry_run)
  show "dry_run_status (JObj [(''effects'', failed_effects)]) = Inr (JStr ''failure'')"
    by simp
  show "\<not> signs (events (transfer refusing_world example_lib ''sui1'' ''0xabc'' float_0_01 auto_confirm))"
    by (simp add: refusing_world_def events_def example_run_signs)
qed

section \<open>Key material after the transfer\<close>

lemma broadcast_down_simps [simp]:
  "keyring_get_password broadcast_down ''sui1'' = Inr (Some example_key)"
  "addr_file broadcast_down = NoFile"
  "addr_file_writable broadcast_down"
  by (simp_all add: broadcast_down_def example_world_def)

lemma broadcast_down_rpc [simp]:
  "rpc_call broadcast_down ''suix_getCoins'' ps =
     (Inr (JObj [(''data'', one_coin)]), [Call ''suix_getCoins'' ps])"
  "rpc_call broadcast_down ''unsafe_paySui'' ps =
     (Inr (JObj [(''txBytes'', JStr ''AAEC'')]), [Call ''unsafe_paySui'' ps])"
  "rpc_call broadcast_down ''sui_dryRunTransactionBlock'' ps =
     (Inr (JObj [(''effects'', ok_effects)]), [Call ''sui_dryRunTransactionBlock'' ps])"
  "rpc_call broadcast_down ''sui_executeTransactionBlock'' ps =
     (Inl RequestException, [Call ''sui_executeTransactionBlock'' ps])"
  by (simp_all add: rpc_call_def broadcast_down_def example_post_def py_contains_def py_item_def)

lemma broadcast_down_sign:
  "fst (sign_and_execute broadcast_down example_lib (JStr ''AAEC'') example_seed 0) = Inl RequestException"
  by (simp add: sign_and_execute_def sig_bytes_value)

lemma broadcast_down_built [simp]:
  "built_tx broadcast_down example_lib example_sender r mist = Some (JStr ''AAEC'')"
  by (simp add: built_tx_def get_coins_def build_transfer_tx_def py_item_def py_index0_def
        py_get_def py_int_def as_float_def big_enough truthy_def one_coin_def)

lemma broadcast_down_gate:
  "fst (transfer_gate broadcast_down example_lib True (JStr ''AAEC'') example_seed 0 True) =
     Inl RequestException"
  by (simp add: transfer_gate_def fst_and_then broadcast_down_sign)

lemma broadcast_down_simulate:
  "fst (transfer_simulate broadcast_down example_lib True s r (JStr ''AAEC'') example_seed 0) =
     Inl RequestException"
  by (simp add: transfer_simulate_def dry_run_def fst_and_then broadcast_down_gate)

lemma broadcast_down_build:
  "fst (transfer_build broadcast_down example_lib True example_sender r mist example_seed 0) =
     Inl RequestException"
  by (simp add: transfer_build_def get_coins_def build_transfer_tx_def py_item_def py_index0_def
        py_get_def py_int_def as_float_def big_enough truthy_def one_coin_def fst_and_then
        broadcast_down_simulate)

lemma broadcast_down_outcome:
  "outcome (transfer broadcast_down example_lib ''sui1'' ''0xabc'' float_0_01 True) = Inl RequestException"
  by (simp add: outcome_def example_transfer transfer_with_wallet_def transfer_try_def
        save_wallet_address_def fst_and_then broadcast_down_build case_prod_beta)

lemma broadcast_down_kept:
  "kept_frames broadcast_down example_lib ''sui1'' ''0xabc'' float_0_01 True =
     [(''sign_and_execute'', [(''seed'', BytesObj example_seed), (''sk'', KeyObj example_seed)])]"
  by (simp add: kept_frames_def mist_0_01 endswith_def kept_with_wallet_def kept_try_def
        save_wallet_address_def kept_simulate_def dry_run_def kept_gate_def broadcast_down_sign
        sign_and_execute_locals_def SigningKey_def)

lemma short_key_kept:
  "kept_frames (world_of (Some short_key) one_coin ok_effects ok_effects ''y'') example_lib ''sui1'' ''0xabc''
       float_0_01 True =
     [(''get_address_from_key'',
       [(''privkey_bech32'', StrObj short_key), (''data5bit'', GroupsObj [0, 0, 0, 16, 4, 0, 24]),
        (''data8bit'', BytesObj [0, 1, 2, 3]), (''seed'', BytesObj [1, 2, 3])])]"
proof -
  have k: "short_key \<noteq> []" "short_key \<noteq> example_key"
    by (simp_all add: short_key_def example_key_def)
  have d: "[0, 0, 0, 16, 4, 0, 24] \<noteq> example_data5"
    by (simp add: example_data5_def)
  show ?thesis
    using k d
    by (simp add: kept_frames_def mist_0_01 endswith_def kept_with_wallet_def kept_try_def
        get_address_from_key_def decode_bech32_key_def SigningKey_def
        get_address_from_key_locals_def example_lib_def)
qed

lemma kept_gate_raises:
  "kept_gate w L a tx seed scheme ok \<noteq> [] \<Longrightarrow> isl (fst (transfer_gate w L a tx seed scheme ok))"
  by (auto simp: kept_gate_def transfer_gate_def fst_and_then split: if_splits sum.splits)

lemma kept_simulate_raises:
  "kept_simulate w L a s r tx seed scheme \<noteq> [] \<Longrightarrow> isl (fst (transfer_simulate w L a s r tx seed scheme))"
  using kept_gate_raises [of w L a tx seed scheme]
  by (auto simp: kept_simulate_def transfer_simulate_def fst_and_then split: sum.splits)

lemma built_tx_Some:
  "built_tx w L s r mist = Some tx \<Longrightarrow>
     fst (transfer_build w L a s r mist seed scheme) = fst (transfer_simulate w L a s r tx seed scheme)"
  by (auto simp: built_tx_def transfer_build_def fst_and_then lift_def split: sum.splits if_splits)

lemma kept_try_raises:
  "kept_try w L a al r mist k \<noteq> [] \<Longrightarrow> isl (fst (fst (transfer_try w L a al r mist k)))"
  using kept_simulate_raises [of w L a _ r _ _ _] built_tx_Some [of w L _ r mist _ a]
  by (auto simp: kept_try_def transfer_try_def fst_and_then split: sum.splits option.splits)

lemma kept_with_wallet_raises:
  "kept_with_wallet w L a al r mist \<noteq> [] \<Longrightarrow> isl (fst (fst (transfer_with_wallet w L a al r mist)))"
  using kept_try_raises [of w L a al r mist]
  by (auto simp: kept_with_wallet_def transfer_with_wallet_def case_prod_beta
        split: sum.splits option.splits if_splits)

lemma kept_frames_raises:
  "kept_frames w L al rcp amt a \<noteq> [] \<Longrightarrow> isl (outcome (transfer w L al rcp amt a))"
  using kept_with_wallet_raises [of w L a al _ _]
  by (auto simp: kept_frames_def transfer_def outcome_def case_prod_beta
        split: sum.splits if_splits prod.splits)

lemma broadcast_down_frame:
  "final_frame (transfer broadcast_down example_lib ''sui1'' ''0xabc'' float_0_01 True) =
     \<lparr>v_privkey = Unbound, v_seed = Unbound\<rparr>"
  by (simp add: final_frame_def transfer_def mist_0_01 endswith_def transfer_with_wallet_def
        clear_secrets_def case_prod_beta)

lemma broadcast_down_said:
  "KeyCleared \<in> set (said (events (transfer broadcast_down example_lib ''sui1'' ''0xabc'' float_0_01 True)))"
  by (simp add: events_def transfer_def mist_0_01 endswith_def transfer_with_wallet_def
        case_prod_beta)

text \<open>
  Claim C3 fails on the paths where the exception arises in a callee that holds key
  material. When the broadcast request raises, \<^verbatim>\<open>transfer\<close> is left with that exception
  after its \<^verbatim>\<open>finally\<close> block has unbound its two variables and printed that the key is
  cleared from memory, and the frame of \<^verbatim>\<open>sign_and_execute\<close> that the exception keeps
  still binds \<^verbatim>\<open>seed\<close> to the 32 bytes of the seed of the key, unchanged, and \<^verbatim>\<open>sk\<close> to
  the signing key made of them. When the key of the keychain has a seed of three bytes,
  the frame of \<^verbatim>\<open>get_address_from_key\<close> that the exception keeps still binds
  \<^verbatim>\<open>privkey_bech32\<close> to the key string as the keychain gave it.
\<close>

theorem key_material_outlives_transfer:
  "get_address_from_key example_lib example_key =
     Inr (example_seed, 0, ed25519_public example_lib example_seed, example_sender) \<and>
   outcome (transfer broadcast_down example_lib ''sui1'' ''0xabc'' float_0_01 True) = Inl RequestException \<and>
   final_frame (transfer broadcast_down example_lib ''sui1'' ''0xabc'' float_0_01 True) =
     \<lparr>v_privkey = Unbound, v_seed = Unbound\<rparr> \<and>
   KeyCleared \<in> set (said (events (transfer broadcast_down example_lib ''sui1'' ''0xabc'' float_0_01 True))) \<and>
   kept_frames broadcast_down example_lib ''sui1'' ''0xabc'' float_0_01 True =
     [(''sign_and_execute'', [(''seed'', BytesObj example_seed), (''sk'', KeyObj example_seed)])] \<and>
   kept_frames (world_of (Some short_key) one_coin ok_effects ok_effects ''y'') example_lib ''sui1'' ''0xabc''
       float_0_01 True =
     [(''get_address_from_key'',
       [(''privkey_bech32'', StrObj short_key), (''data5bit'', GroupsObj [0, 0, 0, 16, 4, 0, 24]),
        (''data8bit'', BytesObj [0, 1, 2, 3]), (''seed'', BytesObj [1, 2, 3])])]"
  using example_address broadcast_down_outcome broadcast_down_frame broadcast_down_said
    broadcast_down_kept short_key_kept
  by simp

end
